theory Spec2Isabelle
  imports Complex_Main "HOL-Library.AList" "HOL-Library.Log_Nat" "HOL-Library.Word"
begin

section \<open>Data model (src/types.ts)\<close>

text \<open>
  A JavaScript \<open>bigint\<close> is an \<open>int\<close>; a JavaScript string is a \<open>string\<close>. The
  optional fields of \<open>AddressInfo\<close> are options. The seven dynamic fields of
  \<open>AddressInfo\<close> carry the suffix \<open>_s\<close> (they hold the decimal text of the number
  and would otherwise clash with the fields of \<open>StakingData\<close>).
\<close>

datatype error = NetworkError | DecodeError | EncodeError | SyntaxError | TypeError | ProviderError

record StakingData =
  totalStaking :: int
  airdropEnergyStaking :: int
  bondStaking :: int
  zhuwangReward :: int
  turbineBalance :: int
  lgnsBalance :: int
  slgnsBalance :: int

record AddressInfo =
  aAddress :: string
  derivedAddress :: string
  remark :: string
  log :: string
  split :: "string option"
  totalStaking_s :: "string option"
  airdropEnergyStaking_s :: "string option"
  bondStaking_s :: "string option"
  zhuwangReward_s :: "string option"
  turbineBalance_s :: "string option"
  lgnsBalance_s :: "string option"
  slgnsBalance_s :: "string option"
  lastUpdated :: "int option"

section \<open>String helpers of the JavaScript runtime\<close>

text \<open>\<open>String.prototype.toLowerCase\<close> on the ASCII range (addresses are hex text).\<close>

definition lower_char :: "char \<Rightarrow> char" where
  "lower_char c =
     (case map_of (zip ''ABCDEFGHIJKLMNOPQRSTUVWXYZ'' ''abcdefghijklmnopqrstuvwxyz'') c of
        Some l \<Rightarrow> l
      | None \<Rightarrow> c)"

definition toLowerCase :: "string \<Rightarrow> string" where
  "toLowerCase s = map lower_char s"

text \<open>\<open>BigInt.prototype.toString\<close>: the decimal text.\<close>

fun nat_toString :: "nat \<Rightarrow> string" where
  "nat_toString n =
     (if n < 10 then [''0123456789'' ! n]
      else nat_toString (n div 10) @ [''0123456789'' ! (n mod 10)])"

definition toString :: "int \<Rightarrow> string" where
  "toString v = (if v < 0 then CHR ''-'' # nat_toString (nat (- v)) else nat_toString (nat v))"

section \<open>JavaScript numbers in the progress computation\<close>

text \<open>
  \<open>Math.round(((i + 1) / uniqueAddresses.length) * 100)\<close> is evaluated on binary64
  numbers. A finite positive binary64 value is a rational; \<open>binary64\<close> rounds a positive
  rational to the nearest value with a 53-bit significand, ties to even (the normal range
  is the only one the progress computation reaches). \<open>Math.round\<close> returns the nearest
  integer, the larger one on a tie.
\<close>

definition round_half_even :: "rat \<Rightarrow> int" where
  "round_half_even q =
     (let f = \<lfloor>q\<rfloor>; r = q - of_int f
      in if r < 1/2 then f else if 1/2 < r then f + 1 else if even f then f else f + 1)"

definition floor_log2 :: "rat \<Rightarrow> int" where
  "floor_log2 q =
     (let (a, b) = quotient_of q; k = bitlen a - bitlen b
      in if 2 powi k \<le> q then k else k - 1)"

definition binary64 :: "rat \<Rightarrow> rat" where
  "binary64 q =
     (if q \<le> 0 then 0
      else let ulp = 2 powi (floor_log2 q - 52)
           in of_int (round_half_even (q / ulp)) * ulp)"

definition Math_round :: "rat \<Rightarrow> int" where
  "Math_round q = \<lfloor>q + 1/2\<rfloor>"

definition progress_pct :: "nat \<Rightarrow> nat \<Rightarrow> int" where
  "progress_pct i n = Math_round (binary64 (binary64 (of_nat (i + 1) / of_nat n) * 100))"

section \<open>Batch run controller (src/App.tsx, runBatchUpdate)\<close>

text \<open>
  The React state of the component (\<open>data\<close>, \<open>isUpdating\<close>, \<open>updateProgress\<close>), the
  persisted copy written by \<open>storage.saveData\<close>, the local \<open>resultsMap\<close> of the run in
  progress, and what the run lets the outside observe: the values handed to
  \<open>setUpdateProgress\<close>, the calls of \<open>queryAddressFullData\<close> and the lines written with
  \<open>console.error\<close>. A JavaScript \<open>Map\<close> iterates in insertion order and \<open>set\<close> on a
  present key replaces the value in place: an association list under \<open>AList.update\<close>.
\<close>

record run_state =
  data :: "AddressInfo list"
  isUpdating :: bool
  updateProgress :: int
  saved :: "AddressInfo list option"
  resultsMap :: "(string \<times> StakingData) list"
  progress_calls :: "int list"
  query_calls :: "(string \<times> string) list"
  console_error :: "(string \<times> error) list"

text \<open>Lines 80-83: \<open>data.forEach(item => uniquePairs.set(lower(aAddress), derivedAddress))\<close>.\<close>

definition uniquePairs :: "AddressInfo list \<Rightarrow> (string \<times> string) list" where
  "uniquePairs items =
     foldl (\<lambda>m item. AList.update (toLowerCase (aAddress item)) (derivedAddress item) m) [] items"

definition uniqueAddresses :: "AddressInfo list \<Rightarrow> string list" where
  "uniqueAddresses items = map fst (uniquePairs items)"

text \<open>Lines 99-115: the updater handed to \<open>setData\<close>; \<open>t\<close> is what \<open>Date.now()\<close> returns.\<close>

definition refresh_item :: "(string \<times> StakingData) list \<Rightarrow> int \<Rightarrow> AddressInfo \<Rightarrow> AddressInfo" where
  "refresh_item rm t item =
     (case map_of rm (toLowerCase (aAddress item)) of
        Some res \<Rightarrow>
          item\<lparr>totalStaking_s := Some (toString (totalStaking res)),
               airdropEnergyStaking_s := Some (toString (airdropEnergyStaking res)),
               bondStaking_s := Some (toString (bondStaking res)),
               zhuwangReward_s := Some (toString (zhuwangReward res)),
               turbineBalance_s := Some (toString (turbineBalance res)),
               lgnsBalance_s := Some (toString (lgnsBalance res)),
               slgnsBalance_s := Some (toString (slgnsBalance res)),
               lastUpdated := Some t\<rparr>
      | None \<Rightarrow> item)"

definition refresh_data ::
  "(string \<times> StakingData) list \<Rightarrow> (nat \<Rightarrow> int) \<Rightarrow> AddressInfo list \<Rightarrow> AddressInfo list" where
  "refresh_data rm clock prev = map (\<lambda>(j, item). refresh_item rm (clock j) item) (enumerate 0 prev)"

text \<open>
  Lines 89-115, one iteration of the loop for index \<open>i\<close>. \<open>query\<close> stands for
  \<open>queryAddressFullData\<close> at the configured \<open>rpcUrl\<close>; \<open>now i j\<close> is the value of
  \<open>Date.now()\<close> for item \<open>j\<close> in iteration \<open>i\<close>.
\<close>

definition batch_step ::
  "(string \<Rightarrow> string \<Rightarrow> error + StakingData) \<Rightarrow> (nat \<Rightarrow> nat \<Rightarrow> int) \<Rightarrow>
   (string \<times> string) list \<Rightarrow> nat \<Rightarrow> run_state \<Rightarrow> run_state" where
  "batch_step query now pairs i st =
     (let aAddr = map fst pairs ! i;
          dAddr = (case map_of pairs aAddr of Some d \<Rightarrow> d | None \<Rightarrow> ''undefined'');
          st1 = st\<lparr>query_calls := query_calls st @ [(aAddr, dAddr)]\<rparr>;
          st2 = (case query aAddr dAddr of
                   Inr result \<Rightarrow> st1\<lparr>resultsMap := AList.update aAddr result (resultsMap st1)\<rparr>
                 | Inl e \<Rightarrow> st1\<lparr>console_error :=
                              console_error st1 @ [(''Failed to update '' @ aAddr, e)]\<rparr>);
          p = progress_pct i (length pairs);
          st3 = st2\<lparr>updateProgress := p, progress_calls := progress_calls st2 @ [p]\<rparr>
      in st3\<lparr>data := refresh_data (resultsMap st3) (now i) (data st3)\<rparr>)"

text \<open>Line 88: \<open>for (let i = 0; i < uniqueAddresses.length; i++)\<close>.\<close>

function batch_loop ::
  "(string \<Rightarrow> string \<Rightarrow> error + StakingData) \<Rightarrow> (nat \<Rightarrow> nat \<Rightarrow> int) \<Rightarrow>
   (string \<times> string) list \<Rightarrow> nat \<Rightarrow> run_state \<Rightarrow> run_state" where
  "batch_loop query now pairs i st =
     (if i < length pairs then batch_loop query now pairs (Suc i) (batch_step query now pairs i st)
      else st)"
  by pat_completeness auto
termination
  by (relation "measure (\<lambda>(query, now, pairs, i, st). length pairs - i)") auto

declare batch_loop.simps [simp del]

text \<open>Lines 77-86: what the run does before the loop.\<close>

definition run_begin :: "run_state \<Rightarrow> run_state" where
  "run_begin st =
     st\<lparr>isUpdating := True, updateProgress := 0, progress_calls := progress_calls st @ [0],
        resultsMap := []\<rparr>"

text \<open>Lines 118-122: what the run does after the loop.\<close>

definition run_end :: "run_state \<Rightarrow> run_state" where
  "run_end st = st\<lparr>saved := Some (data st), isUpdating := False\<rparr>"

text \<open>
  The handler that a render of the component creates closes over the values that
  \<open>isUpdating\<close> and \<open>data\<close> have in that render (lines 49 and 52 are \<open>const\<close>
  bindings of the render): line 76 tests the captured \<open>isUpdating\<close> and lines 81-83
  iterate the captured \<open>data\<close>, whatever the state has become since. The updaters handed
  to \<open>setData\<close> and the setters act on the state of the moment.
\<close>

record handler =
  seen_isUpdating :: bool
  seen_data :: "AddressInfo list"

definition render :: "run_state \<Rightarrow> handler" where
  "render st = \<lparr>seen_isUpdating = isUpdating st, seen_data = data st\<rparr>"

text \<open>Lines 75-123, invoked through the handler \<open>h\<close> when the state is \<open>st\<close>.\<close>

definition runBatchUpdate ::
  "(string \<Rightarrow> string \<Rightarrow> error + StakingData) \<Rightarrow> (nat \<Rightarrow> nat \<Rightarrow> int) \<Rightarrow> handler \<Rightarrow>
   run_state \<Rightarrow> run_state" where
  "runBatchUpdate query now h st =
     (if seen_isUpdating h then st
      else run_end (batch_loop query now (uniquePairs (seen_data h)) 0 (run_begin st)))"

text \<open>
  The state of a run over the captured list \<open>items\<close>, started in state \<open>st\<close>, that has
  completed \<open>k\<close> iterations of the loop and is suspended in the \<open>await\<close> of the next
  one (or is about to leave the loop).
\<close>

definition in_flight ::
  "(string \<Rightarrow> string \<Rightarrow> error + StakingData) \<Rightarrow> (nat \<Rightarrow> nat \<Rightarrow> int) \<Rightarrow> AddressInfo list \<Rightarrow>
   run_state \<Rightarrow> nat \<Rightarrow> run_state" where
  "in_flight query now items st k =
     foldl (\<lambda>s i. batch_step query now (uniquePairs items) i s) (run_begin st) [0..<k]"

text \<open>
  What the result map holds for address \<open>a\<close> once the pairs \<open>ps\<close> have been
  processed: the snapshot of a successful query, nothing for a failed one.
\<close>

definition outcome_of :: "(string \<Rightarrow> string \<Rightarrow> error + StakingData) \<Rightarrow> (string \<times> string) list \<Rightarrow> string \<Rightarrow> StakingData option" where
  "outcome_of q ps a =
     (case map_of ps a of
        Some d \<Rightarrow> (case q a d of Inr r \<Rightarrow> Some r | Inl e \<Rightarrow> None)
      | None \<Rightarrow> None)"

section \<open>Example inputs\<close>

text \<open>Addresses of the initial list of src/App.tsx; the snapshot values are arbitrary.\<close>

definition example_item :: "string \<Rightarrow> string \<Rightarrow> AddressInfo" where
  "example_item a d =
     \<lparr>aAddress = a, derivedAddress = d, remark = [], log = [], split = None,
      totalStaking_s = None, airdropEnergyStaking_s = None, bondStaking_s = None,
      zhuwangReward_s = None, turbineBalance_s = None, lgnsBalance_s = None,
      slgnsBalance_s = None, lastUpdated = None\<rparr>"

definition idle_state :: "AddressInfo list \<Rightarrow> run_state" where
  "idle_state items =
     \<lparr>data = items, isUpdating = False, updateProgress = 0, saved = None, resultsMap = [],
      progress_calls = [], query_calls = [], console_error = []\<rparr>"

definition example_snapshot :: StakingData where
  "example_snapshot =
     \<lparr>totalStaking = 7, airdropEnergyStaking = 0, bondStaking = 0, zhuwangReward = 0,
      turbineBalance = 0, lgnsBalance = 5, slgnsBalance = 0\<rparr>"

definition dup_items :: "AddressInfo list" where
  "dup_items =
     [example_item ''0x999c9cFee1FD3C13cAC00797B48382e5eb2Be12E'' ''0x8C666Bf050D99187a65675701FAcC28AaBA46e71'',
      example_item ''0x999c9cFee1FD3C13cAC00797B48382e5eb2Be12E'' ''0x703112EdB63b86adaFC72c14D4945BEa4649a352'',
      example_item ''0xBb49265De8DEeA9D56F4Ff928578EaE5c6De4e52'' ''0x60deE537A4dE4581D5Dd0F120818d816Bb2E06bc'']"

definition three_items :: "AddressInfo list" where
  "three_items =
     [example_item ''0x999c9cFee1FD3C13cAC00797B48382e5eb2Be12E'' ''0x8C666Bf050D99187a65675701FAcC28AaBA46e71'',
      example_item ''0xBb49265De8DEeA9D56F4Ff928578EaE5c6De4e52'' ''0x703112EdB63b86adaFC72c14D4945BEa4649a352'',
      example_item ''0x549D70813a98ad2fe8ef5C59A24CE4d3Ce4054dA'' ''0x60deE537A4dE4581D5Dd0F120818d816Bb2E06bc'']"

definition query_ok :: "string \<Rightarrow> string \<Rightarrow> error + StakingData" where
  "query_ok a d = Inr example_snapshot"

definition query_failing_second :: "string \<Rightarrow> string \<Rightarrow> error + StakingData" where
  "query_failing_second a d =
     (if a = ''0xbb49265de8deea9d56f4ff928578eae5c6de4e52'' then Inl NetworkError
      else Inr example_snapshot)"

definition clock0 :: "nat \<Rightarrow> nat \<Rightarrow> int" where
  "clock0 i j = 1700000000000 + int i"

section \<open>Blockchain query module (src/unnamed/part_000)\<close>

subsection \<open>The environment: calls, outcomes, the provider's network, the ABIs\<close>

text \<open>
  A call of a Multicall3 batch and its outcome, as \<open>tryAggregate\<close> takes and returns
  them. Payloads and raw returns are hex text, as ethers hands them over. A decoded
  \<open>bytes\<close> value is a list of bytes.
\<close>

record call =
  target :: string
  callData :: string

record outcome =
  success :: bool
  returnData :: string

type_synonym bytes = "8 word list"

text \<open>
  What the provider does on the wire: \<open>eth_call to data\<close> is \<open>provider.call\<close>,
  \<open>tryAggregate calls\<close> is \<open>multi.tryAggregate.staticCall(false, calls)\<close>. Either may
  reject (\<open>Inl\<close>). The chain is read at one state: the answer depends on the request only.
\<close>

record network =
  eth_call :: "string \<Rightarrow> string \<Rightarrow> error + string"
  tryAggregate :: "call list \<Rightarrow> error + outcome list"

text \<open>
  The interface of one dynamic collection (\<open>abi\<close>, \<open>countMethod\<close>, \<open>itemMethod\<close>):
  \<open>iface.encodeFunctionData\<close> and \<open>iface.decodeFunctionResult\<close> for its two methods.
  Decoding may throw. Encoding (lines 84 and 97) does not throw on an address that
  ethers' address coder accepts, and the one caller of \<open>batchQueryDynamicDetails\<close> hands it
  such an address (see \<open>queryAddressFullData\<close> below). The count is an unsigned integer.
\<close>

record 'd codec =
  encodeCount :: "string \<Rightarrow> string"
  decodeCount :: "string \<Rightarrow> error + nat"
  encodeItem :: "string \<Rightarrow> nat \<Rightarrow> string"
  decodeItem :: "string \<Rightarrow> error + 'd"

text \<open>The decoded items of \<open>stakes\<close> and \<open>bondInfoData\<close>, with the fields the extractors read.\<close>

record stake_item =
  exists :: bool
  principal :: nat

record bond_data =
  owner :: string
  payout :: nat

record bond_item =
  bond :: "bond_data option"

text \<open>
  The constants and ABIs imported from \<open>../constants\<close>, which is not among the sources:
  they are parameters. The three simple getters return one unsigned integer each, and
  \<open>multiCall\<close> returns \<open>(bool[] successes, bytes[] results)\<close>. Encoding a call of a
  simple getter throws when the address is malformed (\<open>Inl\<close>).
\<close>

record config =
  TOTAL_STAKING_QUERY_CONTRACT :: string
  AIRDROP_A_ENERGY_STAKE_CONTRACTS :: "string list"
  BOND_CONTRACT_ADDRESSES :: "string list"
  TURBINE_ADDRESS :: string
  ZHUWANG_ADDRESS :: string
  LGNS_TOKEN :: string
  SLGNS_TOKEN :: string
  encode_getTurbineBal :: "string \<Rightarrow> error + string"
  decode_getTurbineBal :: "string \<Rightarrow> error + nat"
  encode_claimable :: "string \<Rightarrow> error + string"
  decode_claimable :: "string \<Rightarrow> error + nat"
  encode_balanceOf :: "string \<Rightarrow> error + string"
  decode_balanceOf :: "string \<Rightarrow> error + nat"
  decode_multiCall :: "string \<Rightarrow> error + (bool list \<times> bytes list)"
  STAKE_ABI :: "stake_item codec"
  LONG_BONDS_ABI :: "bond_item codec"

subsection \<open>getProvider (lines 21-40)\<close>

text \<open>
  A provider object has an identity (the number of providers constructed before it) and
  the URL it was constructed for. \<open>valid url\<close> tells whether
  \<open>new ethers.JsonRpcProvider(url)\<close> returns or throws. The module state is the two
  \<open>let\<close> variables, the count of constructions and the error console.
\<close>

record provider =
  provider_id :: nat
  provider_url :: string

record provider_cache =
  currentProvider :: "provider option"
  currentRpcUrl :: "string option"
  constructed :: nat
  provider_errors :: "error list"

definition DEFAULT_ENDPOINT :: string where
  "DEFAULT_ENDPOINT = ''https://polygon-bor-rpc.publicnode.com''"

definition new_JsonRpcProvider ::
  "(string \<Rightarrow> bool) \<Rightarrow> string \<Rightarrow> provider_cache \<Rightarrow> error + provider \<times> provider_cache" where
  "new_JsonRpcProvider valid url c =
     (if valid url
      then Inr (\<lparr>provider_id = constructed c, provider_url = url\<rparr>, c\<lparr>constructed := Suc (constructed c)\<rparr>)
      else Inl ProviderError)"

definition getProvider ::
  "(string \<Rightarrow> bool) \<Rightarrow> string \<Rightarrow> provider_cache \<Rightarrow> error + provider \<times> provider_cache" where
  "getProvider valid rpcUrl c =
     (if currentProvider c = None \<or> currentRpcUrl c \<noteq> Some rpcUrl then
        (case new_JsonRpcProvider valid rpcUrl c of
           Inr (p, c1) \<Rightarrow> Inr (p, c1\<lparr>currentProvider := Some p, currentRpcUrl := Some rpcUrl\<rparr>)
         | Inl e \<Rightarrow>
             (case new_JsonRpcProvider valid DEFAULT_ENDPOINT (c\<lparr>provider_errors := provider_errors c @ [e]\<rparr>) of
                Inr (p, c1) \<Rightarrow>
                  Inr (p, c1\<lparr>currentProvider := Some p, currentRpcUrl := Some DEFAULT_ENDPOINT\<rparr>)
              | Inl e' \<Rightarrow> Inl e'))
      else (case currentProvider c of Some p \<Rightarrow> Inr (p, c) | None \<Rightarrow> Inl ProviderError))"

subsection \<open>queryTotalStaking (lines 45-63)\<close>

text \<open>The template literal of line 48, before and after \<open>${userAddress_outwith0x}\<close>.\<close>

definition TEMPLATE_PREFIX :: string where
  "TEMPLATE_PREFIX =
     ''0xffd7d741'' @
     ''0000000000000000000000000000000000000000000000000000000000000020'' @
     ''0000000000000000000000000000000000000000000000000000000000000002'' @
     ''0000000000000000000000000000000000000000000000000000000000000040'' @
     ''0000000000000000000000000000000000000000000000000000000000000160'' @
     ''0000000000000000000000000000000000000000000000000000000000000000'' @
     ''0000000000000000000000000000000000000000000000000000000000000000'' @
     ''0000000000000000000000000000000000000000000000000000000000000000'' @
     ''00000000000000000000000099a57e6c8558bc6689f894e068733adf83c19725'' @
     ''0000000000000000000000000000000000000000000000000000000000000000'' @
     ''00000000000000000000000000000000000000000000000000000000000000c0'' @
     ''0000000000000000000000000000000000000000000000000000000000000024'' @
     ''7965d56d00000000000000000000000000000000000000000000000000000000'' @
     ''0000000000000000000000000000000000000000000000000000000000000000'' @
     ''0000000000000000000000000000000000000000000000000000000000000000'' @
     ''0000000000000000000000000000000000000000000000000000000000000000'' @
     ''0000000000000000000000000000000000000000000000000000000000000000'' @
     ''0000000000000000000000000309ca717d6989676194b88fd06029a88ceefee6'' @
     ''0000000000000000000000000000000000000000000000000000000000000000'' @
     ''00000000000000000000000000000000000000000000000000000000000000c0'' @
     ''0000000000000000000000000000000000000000000000000000000000000064'' @
     ''5ac983f400000000000000000000000099a57e6c8558bc6689f894e068733adf'' @
     ''83c197250000000000000000000000001964ca90474b11ffd08af387b110ba6c'' @
     ''96251bfc000000000000000000000000''"

definition TEMPLATE_SUFFIX :: string where
  "TEMPLATE_SUFFIX = ''00000000000000000000000000000000000000000000000000000000''"

definition totalStaking_callData :: "string \<Rightarrow> string" where
  "totalStaking_callData address =
     (let userAddress_outwith0x = toLowerCase (drop 2 address)
      in TEMPLATE_PREFIX @ userAddress_outwith0x @ TEMPLATE_SUFFIX)"

text \<open>
  \<open>BigInt(results[1])\<close> on the hex text of a decoded \<open>bytes\<close> value: the big-endian
  number, and a SyntaxError on the empty value (\<open>BigInt("0x")\<close> throws).
\<close>

definition BigInt_bytes :: "bytes \<Rightarrow> error + int" where
  "BigInt_bytes bs =
     (if bs = [] then Inl SyntaxError
      else Inr (foldl (\<lambda>acc b. acc * 256 + int (unat b)) 0 bs))"

text \<open>
  The body of the \<open>try\<close> block: \<open>Inl\<close> when it throws, \<open>Inr (Some v)\<close> when it
  returns \<open>v\<close> at line 56, \<open>Inr None\<close> when control falls through to line 62.
  \<open>successes[1]\<close> of a shorter array is \<open>undefined\<close>, which is falsy.
\<close>

definition queryTotalStaking_try :: "network \<Rightarrow> config \<Rightarrow> string \<Rightarrow> error + int option" where
  "queryTotalStaking_try net cfg address =
     (case eth_call net (TOTAL_STAKING_QUERY_CONTRACT cfg) (totalStaking_callData address) of
        Inl e \<Rightarrow> Inl e
      | Inr result \<Rightarrow>
          if result \<noteq> [] \<and> result \<noteq> ''0x'' then
            (case decode_multiCall cfg result of
               Inl e \<Rightarrow> Inl e
             | Inr (successes, results) \<Rightarrow>
                 if 1 < length results \<and> 1 < length successes \<and> successes ! 1 then
                   (case BigInt_bytes (results ! 1) of Inl e \<Rightarrow> Inl e | Inr v \<Rightarrow> Inr (Some v))
                 else Inr None)
          else Inr None)"

text \<open>The whole function: the \<open>catch\<close> logs, and line 62 returns \<open>0n\<close>.\<close>

definition queryTotalStaking :: "network \<Rightarrow> config \<Rightarrow> string \<Rightarrow> error + int" where
  "queryTotalStaking net cfg address =
     (case queryTotalStaking_try net cfg address of
        Inr (Some v) \<Rightarrow> Inr v
      | Inr None \<Rightarrow> Inr 0
      | Inl e \<Rightarrow> Inr 0)"

subsection \<open>batchQueryDynamicDetails (lines 68-122)\<close>

text \<open>
  \<open>contracts[idx]\<close>: an index past the end reads \<open>undefined\<close>. Multicall3 answers with
  one outcome per call, so the index of line 96 is in range on every answer it gives.
\<close>

definition js_index :: "string list \<Rightarrow> nat \<Rightarrow> string" where
  "js_index xs i = (if i < length xs then xs ! i else ''undefined'')"

text \<open>Lines 82-85.\<close>

definition countCalls :: "'d codec \<Rightarrow> string \<Rightarrow> string list \<Rightarrow> call list" where
  "countCalls abi address contracts =
     map (\<lambda>t. \<lparr>target = t, callData = encodeCount abi address\<rparr>) contracts"

text \<open>
  Lines 91-101, the \<open>forEach\<close> over \<open>countsResults\<close> from index \<open>idx\<close> on: the item
  calls pushed, or the error of the first count that does not decode.
\<close>

fun enqueue_items ::
  "'d codec \<Rightarrow> string \<Rightarrow> string list \<Rightarrow> nat \<Rightarrow> outcome list \<Rightarrow> error + call list" where
  "enqueue_items abi address contracts idx [] = Inr []"
| "enqueue_items abi address contracts idx (res # rest) =
     (if success res then
        (case decodeCount abi (returnData res) of
           Inl e \<Rightarrow> Inl e
         | Inr count \<Rightarrow>
             (case enqueue_items abi address contracts (Suc idx) rest of
                Inl e \<Rightarrow> Inl e
              | Inr calls \<Rightarrow>
                  Inr (map (\<lambda>i. \<lparr>target = js_index contracts idx, callData = encodeItem abi address i\<rparr>)
                         [0..<count] @ calls)))
      else enqueue_items abi address contracts (Suc idx) rest)"

definition CHUNK_SIZE :: nat where
  "CHUNK_SIZE = 50"

text \<open>
  Lines 110-115, the \<open>forEach\<close> over \<open>itemsResults\<close>: the running total, and the error
  of the first successful entry that does not decode (the entries before it are already
  added).
\<close>

fun add_items :: "'d codec \<Rightarrow> ('d \<Rightarrow> int) \<Rightarrow> outcome list \<Rightarrow> int \<Rightarrow> int \<times> error option" where
  "add_items abi resultExtractor [] total' = (total', None)"
| "add_items abi resultExtractor (res # rest) total' =
     (if success res then
        (case decodeItem abi (returnData res) of
           Inl e \<Rightarrow> (total', Some e)
         | Inr decoded \<Rightarrow> add_items abi resultExtractor rest (total' + resultExtractor decoded))
      else add_items abi resultExtractor rest total')"

text \<open>
  What a run of the function leaves behind: the variable \<open>total\<close> (\<open>run_total\<close>), the batches handed to
  \<open>tryAggregate\<close> in order, and the error the \<open>catch\<close> of line 117 received, if any.
\<close>

record dyn_run =
  run_total :: int
  round_trips :: "call list list"
  caught :: "error option"

text \<open>Lines 107-116, the chunk loop from offset \<open>i\<close> on.\<close>

function chunk_loop ::
  "network \<Rightarrow> 'd codec \<Rightarrow> ('d \<Rightarrow> int) \<Rightarrow> call list \<Rightarrow> nat \<Rightarrow> dyn_run \<Rightarrow> dyn_run" where
  "chunk_loop net abi resultExtractor itemCalls i run =
     (if i < length itemCalls then
        (let chunk = take CHUNK_SIZE (drop i itemCalls);
             run1 = run\<lparr>round_trips := round_trips run @ [chunk]\<rparr>
         in case tryAggregate net chunk of
              Inl e \<Rightarrow> run1\<lparr>caught := Some e\<rparr>
            | Inr itemsResults \<Rightarrow>
                (case add_items abi resultExtractor itemsResults (run_total run1) of
                   (t, Some e) \<Rightarrow> run1\<lparr>run_total := t, caught := Some e\<rparr>
                 | (t, None) \<Rightarrow>
                     chunk_loop net abi resultExtractor itemCalls (i + CHUNK_SIZE) (run1\<lparr>run_total := t\<rparr>)))
      else run)"
  by pat_completeness auto
termination
  by (relation "measure (\<lambda>(net, abi, ex, itemCalls, i, run). length itemCalls - i)")
     (auto simp: CHUNK_SIZE_def)

declare chunk_loop.simps [simp del]

text \<open>Lines 77-121 up to the \<open>return\<close>: the \<open>try\<close> block and its \<open>catch\<close>.\<close>

definition batchQueryDynamicDetails_run ::
  "network \<Rightarrow> string \<Rightarrow> string list \<Rightarrow> 'd codec \<Rightarrow> ('d \<Rightarrow> int) \<Rightarrow> dyn_run" where
  "batchQueryDynamicDetails_run net address contracts abi resultExtractor =
     (let run0 = \<lparr>run_total = 0, round_trips = [countCalls abi address contracts], caught = None\<rparr>
      in case tryAggregate net (countCalls abi address contracts) of
           Inl e \<Rightarrow> run0\<lparr>caught := Some e\<rparr>
         | Inr countsResults \<Rightarrow>
             (case enqueue_items abi address contracts 0 countsResults of
                Inl e \<Rightarrow> run0\<lparr>caught := Some e\<rparr>
              | Inr itemCalls \<Rightarrow>
                  if length itemCalls = 0 then run0
                  else chunk_loop net abi resultExtractor itemCalls 0 run0))"

text \<open>Line 121 (and line 103): the promise resolves with \<open>total\<close>.\<close>

definition batchQueryDynamicDetails ::
  "network \<Rightarrow> string \<Rightarrow> string list \<Rightarrow> 'd codec \<Rightarrow> ('d \<Rightarrow> int) \<Rightarrow> error + int" where
  "batchQueryDynamicDetails net address contracts abi resultExtractor =
     Inr (run_total (batchQueryDynamicDetails_run net address contracts abi resultExtractor))"

subsection \<open>queryAddressFullData (lines 127-184)\<close>

definition ZeroAddress :: string where
  "ZeroAddress = ''0x0000000000000000000000000000000000000000''"

text \<open>Lines 158 and 167, the two extractors.\<close>

definition stake_extractor :: "stake_item \<Rightarrow> int" where
  "stake_extractor decoded = (if exists decoded then int (principal decoded) else 0)"

definition bond_extractor :: "bond_item \<Rightarrow> int" where
  "bond_extractor decoded =
     (case bond decoded of
        Some b \<Rightarrow> if owner b \<noteq> ZeroAddress then int (payout b) else 0
      | None \<Rightarrow> 0)"

text \<open>
  Lines 140-145, evaluated in the order written, before the \<open>try\<close>: the first encoder
  that throws ends the evaluation.
\<close>

definition simpleCalls :: "config \<Rightarrow> string \<Rightarrow> string \<Rightarrow> error + call list" where
  "simpleCalls cfg aAddr dAddr =
     (case encode_getTurbineBal cfg aAddr of
        Inl e \<Rightarrow> Inl e
      | Inr turbineData \<Rightarrow>
     (case encode_claimable cfg aAddr of
        Inl e \<Rightarrow> Inl e
      | Inr zhuwangData \<Rightarrow>
     (case encode_balanceOf cfg dAddr of
        Inl e \<Rightarrow> Inl e
      | Inr lgnsData \<Rightarrow>
     (case encode_balanceOf cfg dAddr of
        Inl e \<Rightarrow> Inl e
      | Inr slgnsData \<Rightarrow>
          Inr [\<lparr>target = TURBINE_ADDRESS cfg, callData = turbineData\<rparr>,
               \<lparr>target = ZHUWANG_ADDRESS cfg, callData = zhuwangData\<rparr>,
               \<lparr>target = LGNS_TOKEN cfg, callData = lgnsData\<rparr>,
               \<lparr>target = SLGNS_TOKEN cfg, callData = slgnsData\<rparr>]))))"

text \<open>
  One of lines 175-178: \<open>simpleResults[k].success ? BigInt(decode(...)[0]) : 0n\<close>.
  Reading \<open>.success\<close> of a missing entry throws a TypeError.
\<close>

definition simple_field :: "(string \<Rightarrow> error + nat) \<Rightarrow> outcome list \<Rightarrow> nat \<Rightarrow> error + int" where
  "simple_field decode simpleResults k =
     (if k < length simpleResults then
        (if success (simpleResults ! k) then
           (case decode (returnData (simpleResults ! k)) of Inl e \<Rightarrow> Inl e | Inr v \<Rightarrow> Inr (int v))
         else Inr 0)
      else Inl TypeError)"

text \<open>Lines 171-179: the object literal, its properties evaluated in the order written.\<close>

definition build_snapshot :: "config \<Rightarrow> outcome list \<Rightarrow> int \<Rightarrow> int \<Rightarrow> int \<Rightarrow> error + StakingData" where
  "build_snapshot cfg simpleResults totalStaking' mintStaked bondStaked =
     (case simple_field (decode_getTurbineBal cfg) simpleResults 0 of
        Inl e \<Rightarrow> Inl e
      | Inr turbine \<Rightarrow>
     (case simple_field (decode_claimable cfg) simpleResults 1 of
        Inl e \<Rightarrow> Inl e
      | Inr zhuwang \<Rightarrow>
     (case simple_field (decode_balanceOf cfg) simpleResults 2 of
        Inl e \<Rightarrow> Inl e
      | Inr lgns \<Rightarrow>
     (case simple_field (decode_balanceOf cfg) simpleResults 3 of
        Inl e \<Rightarrow> Inl e
      | Inr slgns \<Rightarrow>
          Inr \<lparr>totalStaking = totalStaking', airdropEnergyStaking = mintStaked,
               bondStaking = bondStaked, zhuwangReward = zhuwang, turbineBalance = turbine,
               lgnsBalance = lgns, slgnsBalance = slgns\<rparr>))))"

text \<open>
  Lines 132-183. An encoder that throws at lines 141-144 rejects the call before the
  \<open>try\<close> and before any sub-fetch is started; the three other sub-fetches are started
  with an \<open>aAddress\<close> that lines 141-142 have encoded. \<open>Promise.all\<close> rejects as soon as
  one of its four promises rejects, and the \<open>catch\<close> logs and rethrows. Which of several
  rejections is reported depends on their timing: the model reports the first in the order
  of the array, and no statement below depends on the choice. \<open>net\<close> is the network of
  the provider that \<open>getProvider(rpcUrl)\<close> returned.
\<close>

definition queryAddressFullData :: "network \<Rightarrow> config \<Rightarrow> string \<Rightarrow> string \<Rightarrow> error + StakingData" where
  "queryAddressFullData net cfg aAddr dAddr =
     (case simpleCalls cfg aAddr dAddr of
        Inl e \<Rightarrow> Inl e
      | Inr calls \<Rightarrow>
     (case tryAggregate net calls of
        Inl e \<Rightarrow> Inl e
      | Inr simpleResults \<Rightarrow>
     (case queryTotalStaking net cfg aAddr of
        Inl e \<Rightarrow> Inl e
      | Inr totalStaking' \<Rightarrow>
     (case batchQueryDynamicDetails net aAddr (AIRDROP_A_ENERGY_STAKE_CONTRACTS cfg) (STAKE_ABI cfg)
             stake_extractor of
        Inl e \<Rightarrow> Inl e
      | Inr mintStaked \<Rightarrow>
     (case batchQueryDynamicDetails net aAddr (BOND_CONTRACT_ADDRESSES cfg) (LONG_BONDS_ABI cfg)
             bond_extractor of
        Inl e \<Rightarrow> Inl e
      | Inr bondStaked \<Rightarrow> build_snapshot cfg simpleResults totalStaking' mintStaked bondStaked)))))"

subsection \<open>An example chain\<close>

text \<open>
  A configuration with three stake contracts and one bond contract, and a chain on which
  the queried address holds stakes of 100 each in the first stake contract, one stake of
  100 in the third and one bond of 40, while the count call of the second stake contract
  and the reward call revert. The codecs are tables over shortened payloads: a selector
  followed by the address (and the index), one or two bytes of return data. The encoders
  of the simple getters reject an address that is not \<open>0x\<close> and 40 characters.
\<close>

definition encode_address_call :: "string \<Rightarrow> string \<Rightarrow> string" where
  "encode_address_call selector a = selector @ drop 2 a"

definition encode_checked_call :: "string \<Rightarrow> string \<Rightarrow> error + string" where
  "encode_checked_call selector a =
     (if length a = 42 \<and> take 2 a = ''0x'' then Inr (encode_address_call selector a)
      else Inl EncodeError)"

definition decode_uint :: "string \<Rightarrow> error + nat" where
  "decode_uint r =
     (case map_of [(''0x01'', 1), (''0x02'', 2), (''0x05'', 5), (''0x07'', 7), (''0x09'', 9),
                   (''0x77'', 119), (''0x78'', 120)] r of
        Some n \<Rightarrow> Inr n
      | None \<Rightarrow> Inl DecodeError)"

definition example_stake_codec :: "stake_item codec" where
  "example_stake_codec =
     \<lparr>encodeCount = encode_address_call ''0x11111111'',
      decodeCount = decode_uint,
      encodeItem = (\<lambda>a i. encode_address_call ''0x22222222'' a @ nat_toString i),
      decodeItem = (\<lambda>r. if r = ''0x6401'' then Inr \<lparr>exists = True, principal = 100\<rparr>
                         else if r = ''0x6400'' then Inr \<lparr>exists = False, principal = 100\<rparr>
                         else Inl DecodeError)\<rparr>"

definition example_bond_codec :: "bond_item codec" where
  "example_bond_codec =
     \<lparr>encodeCount = encode_address_call ''0x33333333'',
      decodeCount = decode_uint,
      encodeItem = (\<lambda>a i. encode_address_call ''0x44444444'' a @ nat_toString i),
      decodeItem = (\<lambda>r. if r = ''0x28'' then
                           Inr \<lparr>bond = Some \<lparr>owner = ''0x999c9cFee1FD3C13cAC00797B48382e5eb2Be12E'',
                                               payout = 40\<rparr>\<rparr>
                         else Inl DecodeError)\<rparr>"

definition example_config :: config where
  "example_config =
     \<lparr>TOTAL_STAKING_QUERY_CONTRACT = ''0x00000000000000000000000000000000000000a1'',
      AIRDROP_A_ENERGY_STAKE_CONTRACTS =
        [''0x00000000000000000000000000000000000000b1'',
         ''0x00000000000000000000000000000000000000b2'',
         ''0x00000000000000000000000000000000000000b3''],
      BOND_CONTRACT_ADDRESSES = [''0x00000000000000000000000000000000000000c1''],
      TURBINE_ADDRESS = ''0x00000000000000000000000000000000000000d1'',
      ZHUWANG_ADDRESS = ''0x00000000000000000000000000000000000000d2'',
      LGNS_TOKEN = ''0x00000000000000000000000000000000000000e1'',
      SLGNS_TOKEN = ''0x00000000000000000000000000000000000000e2'',
      encode_getTurbineBal = encode_checked_call ''0x55555555'',
      decode_getTurbineBal = decode_uint,
      encode_claimable = encode_checked_call ''0x66666666'',
      decode_claimable = decode_uint,
      encode_balanceOf = encode_checked_call ''0x70a08231'',
      decode_balanceOf = decode_uint,
      decode_multiCall =
        (\<lambda>r. if r = ''0x01'' then Inr ([True, True], [[], [1, 0]])
             else if r = ''0x02'' then Inr ([True, False], [[], [1, 0]])
             else Inl DecodeError),
      STAKE_ABI = example_stake_codec,
      LONG_BONDS_ABI = example_bond_codec\<rparr>"

text \<open>
  The answer of the chain to one call; \<open>stakes\<close> is the return data of the count call of
  the first stake contract.
\<close>

definition example_answer :: "string \<Rightarrow> call \<Rightarrow> outcome" where
  "example_answer stakes c =
     (if target c = ''0x00000000000000000000000000000000000000d1''
        then \<lparr>success = True, returnData = ''0x05''\<rparr>
      else if target c = ''0x00000000000000000000000000000000000000e1''
        then \<lparr>success = True, returnData = ''0x07''\<rparr>
      else if target c = ''0x00000000000000000000000000000000000000e2''
        then \<lparr>success = True, returnData = ''0x09''\<rparr>
      else if target c = ''0x00000000000000000000000000000000000000b1''
        then (if take 10 (callData c) = ''0x11111111''
              then \<lparr>success = True, returnData = stakes\<rparr>
              else \<lparr>success = True, returnData = ''0x6401''\<rparr>)
      else if target c = ''0x00000000000000000000000000000000000000b3''
        then (if take 10 (callData c) = ''0x11111111''
              then \<lparr>success = True, returnData = ''0x01''\<rparr>
              else \<lparr>success = True, returnData = ''0x6401''\<rparr>)
      else if target c = ''0x00000000000000000000000000000000000000c1''
        then (if take 10 (callData c) = ''0x33333333''
              then \<lparr>success = True, returnData = ''0x01''\<rparr>
              else \<lparr>success = True, returnData = ''0x28''\<rparr>)
      else \<lparr>success = False, returnData = ''0x''\<rparr>)"

text \<open>The chain answers every request.\<close>

definition example_network :: "string \<Rightarrow> network" where
  "example_network stakes =
     \<lparr>eth_call = (\<lambda>to payload. Inr ''0x01''),
      tryAggregate = (\<lambda>calls. Inr (map (example_answer stakes) calls))\<rparr>"

text \<open>Only batches of four calls (the simple batch) get through; every other request is rejected.\<close>

definition simple_only_network :: network where
  "simple_only_network =
     \<lparr>eth_call = (\<lambda>to payload. Inl NetworkError),
      tryAggregate = (\<lambda>calls. if length calls = 4 then Inr (map (example_answer ''0x02'') calls)
                               else Inl NetworkError)\<rparr>"

text \<open>Every request is rejected.\<close>

definition dead_network :: network where
  "dead_network =
     \<lparr>eth_call = (\<lambda>to payload. Inl NetworkError), tryAggregate = (\<lambda>calls. Inl NetworkError)\<rparr>"

definition example_address :: string where
  "example_address = ''0x999c9cfee1fd3c13cac00797b48382e5eb2be12e''"

definition example_derived :: string where
  "example_derived = ''0x8C666Bf050D99187a65675701FAcC28AaBA46e71''"

text \<open>
  The chain with 119 stakes in the first stake contract (120 item calls in all), on which
  the batch that starts with item 50 of the first stake contract is rejected.
\<close>

definition flaky_network :: network where
  "flaky_network =
     \<lparr>eth_call = (\<lambda>to payload. Inr ''0x01''),
      tryAggregate =
        (\<lambda>calls. case calls of
                    [] \<Rightarrow> Inr []
                  | c # cs \<Rightarrow>
                      if callData c = encodeItem example_stake_codec example_address 50
                      then Inl NetworkError
                      else Inr (map (example_answer ''0x77'') calls))\<rparr>"

text \<open>The chain on which the turbine call succeeds and returns no data.\<close>

definition empty_data_network :: network where
  "empty_data_network =
     \<lparr>eth_call = (\<lambda>to payload. Inr ''0x01''),
      tryAggregate =
        (\<lambda>calls. Inr (map (\<lambda>c. if target c = ''0x00000000000000000000000000000000000000d1''
                                then \<lparr>success = True, returnData = ''0x''\<rparr>
                                else example_answer ''0x02'' c) calls))\<rparr>"

subsection \<open>The chunk partition, as the specification words it\<close>

text \<open>
  The chunks of \<open>n\<close> elements of a list, in order; the sum of one chunk fetched and
  reduced on its own (from a total of 0); and whether a chunk is fetched and decoded
  without an error. These three follow the specification, not the loop of lines 107-116,
  and are what that loop is compared with.
\<close>

function chunks :: "nat \<Rightarrow> 'a list \<Rightarrow> 'a list list" where
  "chunks n xs = (if n = 0 \<or> xs = [] then [] else take n xs # chunks n (drop n xs))"
  by pat_completeness auto
termination
  by (relation "measure (\<lambda>(n, xs). length xs)") auto

declare chunks.simps [simp del]

definition chunk_sum :: "network \<Rightarrow> 'd codec \<Rightarrow> ('d \<Rightarrow> int) \<Rightarrow> call list \<Rightarrow> int" where
  "chunk_sum net abi resultExtractor chunk =
     (case tryAggregate net chunk of
        Inr itemsResults \<Rightarrow> fst (add_items abi resultExtractor itemsResults 0)
      | Inl e \<Rightarrow> 0)"

definition chunk_ok :: "network \<Rightarrow> 'd codec \<Rightarrow> ('d \<Rightarrow> int) \<Rightarrow> call list \<Rightarrow> bool" where
  "chunk_ok net abi resultExtractor chunk =
     (case tryAggregate net chunk of
        Inr itemsResults \<Rightarrow> snd (add_items abi resultExtractor itemsResults 0) = None
      | Inl e \<Rightarrow> False)"

text \<open>
  The chunks a fetch gets to: every chunk up to and including the first one that is
  rejected or meets an item that does not decode.
\<close>

fun attempted :: "network \<Rightarrow> 'd codec \<Rightarrow> ('d \<Rightarrow> int) \<Rightarrow> call list list \<Rightarrow> call list list" where
  "attempted net abi resultExtractor [] = []"
| "attempted net abi resultExtractor (c # cs) =
     c # (if chunk_ok net abi resultExtractor c then attempted net abi resultExtractor cs else [])"

subsection \<open>The item calls, as the specification words them\<close>

text \<open>
  For each contract whose count call succeeded, the count \<open>N\<close> it decodes to and the
  \<open>N\<close> item calls \<open>itemFn(address, i)\<close>, \<open>i\<close> in \<open>[0, N)\<close>, in the order of the
  contracts; and a list without its element at one position.
\<close>

definition item_calls_for :: "'d codec \<Rightarrow> string \<Rightarrow> string \<Rightarrow> nat \<Rightarrow> call list" where
  "item_calls_for abi address contract n =
     map (\<lambda>i. \<lparr>target = contract, callData = encodeItem abi address i\<rparr>) [0..<n]"

definition decoded_count :: "'d codec \<Rightarrow> outcome \<Rightarrow> nat" where
  "decoded_count abi res = (case decodeCount abi (returnData res) of Inr n \<Rightarrow> n | Inl e \<Rightarrow> 0)"

definition expected_item_calls :: "'d codec \<Rightarrow> string \<Rightarrow> string list \<Rightarrow> outcome list \<Rightarrow> call list" where
  "expected_item_calls abi address contracts countsResults =
     concat (map (\<lambda>j. if success (countsResults ! j)
                       then item_calls_for abi address (contracts ! j) (decoded_count abi (countsResults ! j))
                       else [])
                 [0..<length countsResults])"

definition without :: "nat \<Rightarrow> 'a list \<Rightarrow> 'a list" where
  "without i xs = take i xs @ drop (Suc i) xs"

subsection \<open>Further example values\<close>

text \<open>
  The 120 item calls on the chain with 119 stakes in the first stake contract, and the
  count results behind them.
\<close>

definition example_item_calls :: "call list" where
  "example_item_calls =
     item_calls_for example_stake_codec example_address ''0x00000000000000000000000000000000000000b1'' 119 @
     item_calls_for example_stake_codec example_address ''0x00000000000000000000000000000000000000b3'' 1"

definition example_counts :: "string \<Rightarrow> outcome list" where
  "example_counts stakes =
     [\<lparr>success = True, returnData = stakes\<rparr>, \<lparr>success = False, returnData = ''0x''\<rparr>,
      \<lparr>success = True, returnData = ''0x01''\<rparr>]"

text \<open>
  A constructor that accepts every URL, as the one of ethers does; a constructor that
  accepts the default endpoint only; and the module state before the first call of
  \<open>getProvider\<close>.
\<close>

definition accepts_every_url :: "string \<Rightarrow> bool" where
  "accepts_every_url url = True"

definition valid_default_only :: "string \<Rightarrow> bool" where
  "valid_default_only url = (url = DEFAULT_ENDPOINT)"

definition empty_cache :: provider_cache where
  "empty_cache = \<lparr>currentProvider = None, currentRpcUrl = None, constructed = 0, provider_errors = []\<rparr>"

text \<open>The snapshot of the example address on the example chain with two stakes in the first contract.\<close>

definition example_full_snapshot :: StakingData where
  "example_full_snapshot =
     \<lparr>totalStaking = 256, airdropEnergyStaking = 300, bondStaking = 40, zhuwangReward = 0,
      turbineBalance = 5, lgnsBalance = 7, slgnsBalance = 9\<rparr>"

section \<open>Properties of the batch run controller\<close>

lemma batch_loop_foldl:
  "batch_loop query now pairs i st = foldl (\<lambda>s j. batch_step query now pairs j s) st [i..<length pairs]"
proof (induction query now pairs i st rule: batch_loop.induct)
  case (1 query now pairs i st)
  show ?case
  proof (cases "i < length pairs")
    case True
    then show ?thesis
      using 1 by (subst batch_loop.simps) (simp add: upt_conv_Cons)
  next
    case False
    then show ?thesis by (subst batch_loop.simps) simp
  qed
qed

lemma run_in_flight:
  "\<not> seen_isUpdating h \<Longrightarrow>
   runBatchUpdate query now h st =
   run_end (in_flight query now (seen_data h) st (length (uniquePairs (seen_data h))))"
  by (simp add: runBatchUpdate_def in_flight_def batch_loop_foldl)

lemma in_flight_Suc:
  "in_flight query now items st (Suc k) =
   batch_step query now (uniquePairs items) k (in_flight query now items st k)"
  by (simp add: in_flight_def)

lemma in_flight_0: "in_flight query now items st 0 = run_begin st"
  by (simp add: in_flight_def)

lemma foldl_update_distinct:
  "distinct (map fst m) \<Longrightarrow>
   distinct (map fst (foldl (\<lambda>m item. AList.update (toLowerCase (aAddress item)) (derivedAddress item) m) m items))"
  by (induction items arbitrary: m) (simp_all add: distinct_update)

lemma foldl_update_map_of:
  "map_of (foldl (\<lambda>m item. AList.update (toLowerCase (aAddress item)) (derivedAddress item) m) m items)
   = map_of m ++ map_of (rev (map (\<lambda>item. (toLowerCase (aAddress item), derivedAddress item)) items))"
proof (induction items arbitrary: m)
  case Nil
  then show ?case by simp
next
  case (Cons x xs)
  show ?case
    by (simp add: Cons update_conv' map_add_def fun_eq_iff split: option.splits)
qed

lemma foldl_update_keys:
  "fst ` set (foldl (\<lambda>m item. AList.update (toLowerCase (aAddress item)) (derivedAddress item) m) m items)
   = fst ` set m \<union> (\<lambda>item. toLowerCase (aAddress item)) ` set items"
  by (induction items arbitrary: m) (auto simp: dom_update)

lemma distinct_uniquePairs: "distinct (map fst (uniquePairs items))"
  by (simp add: uniquePairs_def foldl_update_distinct)

lemma keys_uniquePairs:
  "fst ` set (uniquePairs items) = (\<lambda>item. toLowerCase (aAddress item)) ` set items"
  by (simp add: uniquePairs_def foldl_update_keys)

lemma map_of_uniquePairs:
  "map_of (uniquePairs items) =
   map_of (rev (map (\<lambda>item. (toLowerCase (aAddress item), derivedAddress item)) items))"
  by (simp add: uniquePairs_def foldl_update_map_of)

lemma map_of_rev_last:
  "map_of (rev (map (\<lambda>item. (f item, g item)) items)) a = Some d \<Longrightarrow>
   \<exists>pre it post. items = pre @ it # post \<and> f it = a \<and> g it = d \<and> (\<forall>x \<in> set post. f x \<noteq> a)"
proof (induction items rule: rev_induct)
  case Nil
  then show ?case by simp
next
  case (snoc x xs)
  show ?case
  proof (cases "f x = a")
    case True
    with snoc.prems have "g x = d" by simp
    with True show ?thesis by (intro exI[of _ xs] exI[of _ x] exI[of _ "[]"]) simp
  next
    case False
    with snoc.prems have "map_of (rev (map (\<lambda>item. (f item, g item)) xs)) a = Some d" by simp
    from snoc.IH[OF this] obtain pre it post where
      "xs = pre @ it # post" "f it = a" "g it = d" "\<forall>x \<in> set post. f x \<noteq> a" by blast
    with False show ?thesis
      by (intro exI[of _ pre] exI[of _ it] exI[of _ "post @ [x]"]) simp
  qed
qed

lemma uniquePairs_last_occurrence:
  assumes "(a, d) \<in> set (uniquePairs items)"
  shows "\<exists>pre it post. items = pre @ it # post \<and> toLowerCase (aAddress it) = a \<and>
           derivedAddress it = d \<and> (\<forall>x \<in> set post. toLowerCase (aAddress x) \<noteq> a)"
proof -
  from assms have "map_of (uniquePairs items) a = Some d"
    using distinct_uniquePairs by simp
  then show ?thesis
    unfolding map_of_uniquePairs by (rule map_of_rev_last)
qed

lemma length_refresh_data [simp]: "length (refresh_data rm c xs) = length xs"
  by (simp add: refresh_data_def)

lemma nth_refresh_data:
  "j < length xs \<Longrightarrow> refresh_data rm c xs ! j = refresh_item rm (c j) (xs ! j)"
  by (simp add: refresh_data_def nth_enumerate_eq)

lemma aAddress_refresh_item [simp]: "aAddress (refresh_item rm t item) = aAddress item"
  by (simp add: refresh_item_def split: option.splits)

lemma refresh_item_absent:
  "map_of rm (toLowerCase (aAddress item)) = None \<Longrightarrow> refresh_item rm t item = item"
  by (simp add: refresh_item_def)

lemma refresh_item_twice:
  "(map_of rm (toLowerCase (aAddress item)) \<noteq> None \<longrightarrow>
      map_of rm' (toLowerCase (aAddress item)) \<noteq> None) \<Longrightarrow>
   refresh_item rm' t' (refresh_item rm t item) = refresh_item rm' t' item"
  by (cases "map_of rm (toLowerCase (aAddress item))";
      cases "map_of rm' (toLowerCase (aAddress item))")
     (simp_all add: refresh_item_def)

lemma refresh_data_twice:
  assumes "dom (map_of rm) \<subseteq> dom (map_of rm')"
  shows "refresh_data rm' c' (refresh_data rm c xs) = refresh_data rm' c' xs"
proof (rule nth_equalityI)
  show "length (refresh_data rm' c' (refresh_data rm c xs)) = length (refresh_data rm' c' xs)"
    by simp
next
  fix j assume "j < length (refresh_data rm' c' (refresh_data rm c xs))"
  then have j: "j < length xs" by simp
  have "refresh_item rm' (c' j) (refresh_item rm (c j) (xs ! j)) = refresh_item rm' (c' j) (xs ! j)"
    using assms by (intro refresh_item_twice) blast
  with j show "refresh_data rm' c' (refresh_data rm c xs) ! j = refresh_data rm' c' xs ! j"
    by (simp add: nth_refresh_data)
qed

lemma pair_lookup:
  assumes "distinct (map fst ps)" "i < length ps" "ps ! i = (a, d)"
  shows "map fst ps ! i = a" "map_of ps a = Some d"
proof -
  show "map fst ps ! i = a" using assms by simp
  have "(a, d) \<in> set ps" using assms by (metis nth_mem)
  then show "map_of ps a = Some d" using assms(1) by simp
qed

lemma batch_step_fields:
  assumes "distinct (map fst ps)" "i < length ps" "ps ! i = (a, d)"
  shows "query_calls (batch_step q now ps i s) = query_calls s @ [(a, d)]"
    and "resultsMap (batch_step q now ps i s) =
           (case q a d of Inr r \<Rightarrow> AList.update a r (resultsMap s) | Inl e \<Rightarrow> resultsMap s)"
    and "console_error (batch_step q now ps i s) =
           console_error s @ (case q a d of Inr r \<Rightarrow> [] | Inl e \<Rightarrow> [(''Failed to update '' @ a, e)])"
    and "progress_calls (batch_step q now ps i s) = progress_calls s @ [progress_pct i (length ps)]"
    and "updateProgress (batch_step q now ps i s) = progress_pct i (length ps)"
    and "isUpdating (batch_step q now ps i s) = isUpdating s"
    and "saved (batch_step q now ps i s) = saved s"
    and "data (batch_step q now ps i s) =
           refresh_data (resultsMap (batch_step q now ps i s)) (now i) (data s)"
  using pair_lookup[OF assms]
  by (simp_all add: batch_step_def Let_def split: sum.splits)

lemma take_Suc_pairs:
  assumes "distinct (map fst ps)" "k < length ps" "ps ! k = (a, d)"
  shows "take (Suc k) ps = take k ps @ [(a, d)]" "map_of (take k ps) a = None"
proof -
  show t: "take (Suc k) ps = take k ps @ [(a, d)]"
    using assms by (simp add: take_Suc_conv_app_nth)
  have "distinct (map fst (take (Suc k) ps))"
    using assms(1) by (simp flip: take_map)
  then have "a \<notin> fst ` set (take k ps)" unfolding t by auto
  then show "map_of (take k ps) a = None" by (simp add: map_of_eq_None_iff)
qed

lemma in_flight_simple:
  "isUpdating (in_flight q now items st k)" "saved (in_flight q now items st k) = saved st"
proof (induction k)
  case 0
  { case 1 show ?case by (simp add: in_flight_0 run_begin_def) }
  { case 2 show ?case by (simp add: in_flight_0 run_begin_def) }
next
  case (Suc k)
  { case 1 
    show ?case using Suc(1)
      by (simp add: in_flight_Suc batch_step_def Let_def split: sum.splits) }
  { case 2 
    show ?case using Suc(2)
      by (simp add: in_flight_Suc batch_step_def Let_def split: sum.splits) }
qed

lemma in_flight_traces:
  assumes "k \<le> length (uniquePairs items)"
  shows "query_calls (in_flight q now items st k) = query_calls st @ take k (uniquePairs items)"
    and "progress_calls (in_flight q now items st k) =
           progress_calls st @ 0 # map (\<lambda>i. progress_pct i (length (uniquePairs items))) [0..<k]"
    and "console_error (in_flight q now items st k) =
           console_error st @
           concat (map (\<lambda>(a, d). case q a d of Inr r \<Rightarrow> [] | Inl e \<Rightarrow> [(''Failed to update '' @ a, e)])
                       (take k (uniquePairs items)))"
    and "map_of (resultsMap (in_flight q now items st k)) a = outcome_of q (take k (uniquePairs items)) a"
  using assms
proof (induction k)
  case 0
  { case 1 show ?case by (simp add: in_flight_0 run_begin_def) }
  { case 2 show ?case by (simp add: in_flight_0 run_begin_def) }
  { case 3 show ?case by (simp add: in_flight_0 run_begin_def) }
  { case 4 show ?case by (simp add: in_flight_0 run_begin_def outcome_of_def) }
next
  case (Suc k)
  let ?ps = "uniquePairs items"
  obtain a' d' where ad: "?ps ! k = (a', d')" by (cases "?ps ! k")
  { case 1
    then have k: "k < length ?ps" by simp
    note f = batch_step_fields[OF distinct_uniquePairs k ad] and t = take_Suc_pairs[OF distinct_uniquePairs k ad]
    show ?case using Suc(1) k by (simp add: in_flight_Suc f t) }
  { case 2
    then have k: "k < length ?ps" by simp
    note f = batch_step_fields[OF distinct_uniquePairs k ad] and t = take_Suc_pairs[OF distinct_uniquePairs k ad]
    show ?case using Suc(2) k by (simp add: in_flight_Suc f t) }
  { case 3
    then have k: "k < length ?ps" by simp
    note f = batch_step_fields[OF distinct_uniquePairs k ad] and t = take_Suc_pairs[OF distinct_uniquePairs k ad]
    show ?case using Suc(3) k by (simp add: in_flight_Suc f t) }
  { case 4
    then have k: "k < length ?ps" by simp
    note f = batch_step_fields[OF distinct_uniquePairs k ad] and t = take_Suc_pairs[OF distinct_uniquePairs k ad]
    have ih: "map_of (resultsMap (in_flight q now items st k)) a = outcome_of q (take k ?ps) a"
      using Suc(4) k by simp
    show ?case 
      using ih t(2)
      by (cases "q a' d'"; cases "a = a'")
         (simp_all add: in_flight_Suc f t(1) update_conv' outcome_of_def map_add_def split: option.splits) }
qed

lemma in_flight_dom_mono:
  assumes "Suc k \<le> length (uniquePairs items)"
  shows "dom (map_of (resultsMap (in_flight q now items st k))) \<subseteq>
         dom (map_of (resultsMap (in_flight q now items st (Suc k))))"
proof -
  let ?ps = "uniquePairs items"
  obtain a' d' where ad: "?ps ! k = (a', d')" by (cases "?ps ! k")
  from assms have k: "k < length ?ps" by simp
  note f = batch_step_fields[OF distinct_uniquePairs k ad]
  show ?thesis
    by (cases "q a' d'") (auto simp: in_flight_Suc f update_conv')
qed

lemma in_flight_data:
  assumes "Suc k \<le> length (uniquePairs items)"
  shows "data (in_flight q now items st (Suc k)) =
         refresh_data (resultsMap (in_flight q now items st (Suc k))) (now k) (data st)"
  using assms
proof (induction k)
  case 0
  let ?ps = "uniquePairs items"
  obtain a' d' where ad: "?ps ! 0 = (a', d')" by (cases "?ps ! 0")
  from 0 have k: "0 < length ?ps" by arith
  note f = batch_step_fields[OF distinct_uniquePairs k ad]
  have "data (in_flight q now items st 0) = data st" by (simp add: in_flight_0 run_begin_def)
  then show ?case using f(8)[of q now "in_flight q now items st 0"]
    by (simp add: in_flight_Suc[of _ _ _ _ 0])
next
  case (Suc k)
  let ?ps = "uniquePairs items"
  obtain a' d' where ad: "?ps ! Suc k = (a', d')" by (cases "?ps ! Suc k")
  from Suc.prems have k: "Suc k < length ?ps" by simp
  note f = batch_step_fields[OF distinct_uniquePairs k ad]
  have ih: "data (in_flight q now items st (Suc k)) =
         refresh_data (resultsMap (in_flight q now items st (Suc k))) (now k) (data st)"
    using Suc by simp
  have mono: "dom (map_of (resultsMap (in_flight q now items st (Suc k)))) \<subseteq>
         dom (map_of (resultsMap (in_flight q now items st (Suc (Suc k)))))"
    using in_flight_dom_mono Suc.prems by blast
  have "data (in_flight q now items st (Suc (Suc k))) =
        refresh_data (resultsMap (in_flight q now items st (Suc (Suc k)))) (now (Suc k))
          (data (in_flight q now items st (Suc k)))"
    using f(8)[of q now "in_flight q now items st (Suc k)"] by (simp add: in_flight_Suc[of _ _ _ _ "Suc k"])
  also have "\<dots> = refresh_data (resultsMap (in_flight q now items st (Suc (Suc k)))) (now (Suc k)) (data st)"
    unfolding ih using mono by (rule refresh_data_twice)
  finally show ?case .
qed

lemma binary64_1: "binary64 1 = 1" by code_simp
lemma binary64_100: "binary64 100 = 100" by code_simp
lemma Math_round_100: "Math_round 100 = 100" by code_simp

lemma progress_pct_full:
  assumes "0 < n" shows "progress_pct (n - 1) n = 100"
proof -
  have a: "n - 1 + 1 = n" using assms by arith
  have b: "(of_nat n :: rat) / of_nat n = 1" using assms by simp
  show ?thesis
    by (simp only: progress_pct_def a b binary64_1 mult_1 binary64_100 Math_round_100)
qed

lemma run_fields:
  assumes "\<not> seen_isUpdating h"
  shows "data (runBatchUpdate q now h st) =
           data (in_flight q now (seen_data h) st (length (uniquePairs (seen_data h))))"
    and "saved (runBatchUpdate q now h st) = Some (data (runBatchUpdate q now h st))"
    and "\<not> isUpdating (runBatchUpdate q now h st)"
    and "resultsMap (runBatchUpdate q now h st) =
           resultsMap (in_flight q now (seen_data h) st (length (uniquePairs (seen_data h))))"
    and "query_calls (runBatchUpdate q now h st) =
           query_calls (in_flight q now (seen_data h) st (length (uniquePairs (seen_data h))))"
    and "progress_calls (runBatchUpdate q now h st) =
           progress_calls (in_flight q now (seen_data h) st (length (uniquePairs (seen_data h))))"
    and "console_error (runBatchUpdate q now h st) =
           console_error (in_flight q now (seen_data h) st (length (uniquePairs (seen_data h))))"
    and "updateProgress (runBatchUpdate q now h st) =
           updateProgress (in_flight q now (seen_data h) st (length (uniquePairs (seen_data h))))"
  by (simp_all add: run_in_flight[OF assms] run_end_def)

lemma in_flight_updateProgress:
  assumes "Suc k \<le> length (uniquePairs items)"
  shows "updateProgress (in_flight q now items st (Suc k)) = progress_pct k (length (uniquePairs items))"
proof -
  let ?ps = "uniquePairs items"
  obtain a' d' where ad: "?ps ! k = (a', d')" by (cases "?ps ! k")
  from assms have k: "k < length ?ps" by simp
  show ?thesis
    by (simp add: in_flight_Suc batch_step_fields(5)[OF distinct_uniquePairs k ad])
qed

text \<open>
  C1 (as amended). The run queries each lower-cased primary address of the handler's list
  once, and the derived address handed to the query is the one of the LAST item of the
  list that carries this primary address.
\<close>

theorem dedup_last_occurrence_wins:
  assumes "\<not> seen_isUpdating h"
  shows "query_calls (runBatchUpdate query now h st) = query_calls st @ uniquePairs (seen_data h) \<and>
         distinct (map fst (uniquePairs (seen_data h))) \<and>
         fst ` set (uniquePairs (seen_data h)) =
           (\<lambda>item. toLowerCase (aAddress item)) ` set (seen_data h) \<and>
         (\<forall>(a, d) \<in> set (uniquePairs (seen_data h)).
            \<exists>pre it post. seen_data h = pre @ it # post \<and> toLowerCase (aAddress it) = a \<and>
               derivedAddress it = d \<and> (\<forall>x \<in> set post. toLowerCase (aAddress x) \<noteq> a))"
proof -
  have "query_calls (runBatchUpdate query now h st) = query_calls st @ uniquePairs (seen_data h)"
    using run_fields(5)[OF assms]
          in_flight_traces(1)[of "length (uniquePairs (seen_data h))" "seen_data h"]
    by simp
  moreover have "\<forall>(a, d) \<in> set (uniquePairs (seen_data h)).
            \<exists>pre it post. seen_data h = pre @ it # post \<and> toLowerCase (aAddress it) = a \<and>
               derivedAddress it = d \<and> (\<forall>x \<in> set post. toLowerCase (aAddress x) \<noteq> a)"
    using uniquePairs_last_occurrence by blast
  ultimately show ?thesis
    using distinct_uniquePairs keys_uniquePairs by blast
qed

theorem dedup_last_occurrence_wins_witness:
  "\<not> seen_isUpdating (render (idle_state dup_items)) \<and>
   query_calls (runBatchUpdate query_ok clock0 (render (idle_state dup_items)) (idle_state dup_items)) =
     [(''0x999c9cfee1fd3c13cac00797b48382e5eb2be12e'', ''0x703112EdB63b86adaFC72c14D4945BEa4649a352''),
      (''0xbb49265de8deea9d56f4ff928578eae5c6de4e52'', ''0x60deE537A4dE4581D5Dd0F120818d816Bb2E06bc'')]"
proof -
  have h: "\<not> seen_isUpdating (render (idle_state dup_items))"
    by (simp add: idle_state_def render_def)
  have q: "query_calls (idle_state dup_items) = []" "seen_data (render (idle_state dup_items)) = dup_items"
    by (simp_all add: idle_state_def render_def)
  have u: "uniquePairs dup_items =
     [(''0x999c9cfee1fd3c13cac00797b48382e5eb2be12e'', ''0x703112EdB63b86adaFC72c14D4945BEa4649a352''),
      (''0xbb49265de8deea9d56f4ff928578eae5c6de4e52'', ''0x60deE537A4dE4581D5Dd0F120818d816Bb2E06bc'')]"
    by code_simp
  show ?thesis
    using dedup_last_occurrence_wins[OF h, of query_ok clock0 "idle_state dup_items"] h
    by (simp add: q u)
qed

text \<open>
  C1 (as stated) fails: for the input \<open>[(A, D1), (A, D2), (B, D3)]\<close> the query for
  \<open>A\<close> receives \<open>D2\<close>, the derived address of the second occurrence, not \<open>D1\<close>.
\<close>

theorem dedup_first_occurrence_counterexample:
  "query_calls (runBatchUpdate query_ok clock0 (render (idle_state dup_items)) (idle_state dup_items)) =
     [(''0x999c9cfee1fd3c13cac00797b48382e5eb2be12e'', ''0x703112EdB63b86adaFC72c14D4945BEa4649a352''),
      (''0xbb49265de8deea9d56f4ff928578eae5c6de4e52'', ''0x60deE537A4dE4581D5Dd0F120818d816Bb2E06bc'')] \<and>
   derivedAddress (dup_items ! 0) = ''0x8C666Bf050D99187a65675701FAcC28AaBA46e71'' \<and>
   toLowerCase (aAddress (dup_items ! 0)) = ''0x999c9cfee1fd3c13cac00797b48382e5eb2be12e''"
  by code_simp

lemma outcome_of_failed:
  assumes "distinct (map fst ps)" "(a, d) \<in> set ps" "q a d = Inl e"
  shows "outcome_of q ps a = None"
  using assms by (simp add: outcome_of_def)

lemma outcome_of_succeeded:
  assumes "distinct (map fst ps)" "(a, d) \<in> set ps" "q a d = Inr r"
  shows "outcome_of q ps a = Some r"
  using assms by (simp add: outcome_of_def)

text \<open>
  C2. A run in which the query of some address \<open>a\<close> fails still queries every address
  and reports \<open>Math.round(((i + 1) / n) * 100)\<close> after each of them, the failed one
  included (after the 0 of line 78; the last report is 100). Every record whose address
  was queried with success carries the seven values of its snapshot and the time of the
  last update. The failure of \<open>a\<close> is written to the error console, no result is kept
  for it, and every record of \<open>a\<close> is exactly as it was before the run.
\<close>

theorem partial_failure_isolated:
  assumes "\<not> seen_isUpdating h" and "(a, d) \<in> set (uniquePairs (seen_data h))"
      and "query a d = Inl e"
  shows "query_calls (runBatchUpdate query now h st) = query_calls st @ uniquePairs (seen_data h) \<and>
         progress_calls (runBatchUpdate query now h st) =
           progress_calls st @ 0 #
           map (\<lambda>i. progress_pct i (length (uniquePairs (seen_data h))))
               [0..<length (uniquePairs (seen_data h))] \<and>
         last (progress_calls (runBatchUpdate query now h st)) = 100 \<and>
         updateProgress (runBatchUpdate query now h st) = 100 \<and>
         (\<forall>(a', d') \<in> set (uniquePairs (seen_data h)). \<forall>r. query a' d' = Inr r \<longrightarrow>
            map_of (resultsMap (runBatchUpdate query now h st)) a' = Some r) \<and>
         length (data (runBatchUpdate query now h st)) = length (data st) \<and>
         (\<forall>j < length (data st). \<forall>d' r.
            (toLowerCase (aAddress (data st ! j)), d') \<in> set (uniquePairs (seen_data h)) \<and>
            query (toLowerCase (aAddress (data st ! j))) d' = Inr r \<longrightarrow>
            data (runBatchUpdate query now h st) ! j =
              (data st ! j)
                \<lparr>totalStaking_s := Some (toString (totalStaking r)),
                 airdropEnergyStaking_s := Some (toString (airdropEnergyStaking r)),
                 bondStaking_s := Some (toString (bondStaking r)),
                 zhuwangReward_s := Some (toString (zhuwangReward r)),
                 turbineBalance_s := Some (toString (turbineBalance r)),
                 lgnsBalance_s := Some (toString (lgnsBalance r)),
                 slgnsBalance_s := Some (toString (slgnsBalance r)),
                 lastUpdated := Some (now (length (uniquePairs (seen_data h)) - 1) j)\<rparr>) \<and>
         map_of (resultsMap (runBatchUpdate query now h st)) a = None \<and>
         (''Failed to update '' @ a, e) \<in> set (console_error (runBatchUpdate query now h st)) \<and>
         (\<forall>j < length (data st). toLowerCase (aAddress (data st ! j)) = a \<longrightarrow>
            data (runBatchUpdate query now h st) ! j = data st ! j) \<and>
         saved (runBatchUpdate query now h st) = Some (data (runBatchUpdate query now h st)) \<and>
         \<not> isUpdating (runBatchUpdate query now h st)"
proof -
  let ?ps = "uniquePairs (seen_data h)"
  let ?n = "length ?ps"
  let ?st' = "runBatchUpdate query now h st"
  note rf = run_fields[OF assms(1), of query now st]
  note tr = in_flight_traces[of ?n "seen_data h" query now st, OF order_refl]
  from assms(2) have n: "0 < ?n" by (cases ?ps) auto
  then obtain m where m: "?n = Suc m" by (cases ?n) auto
  have c1: "query_calls ?st' = query_calls st @ ?ps"
    using rf(5) tr(1) by simp
  have c2: "progress_calls ?st' = progress_calls st @ 0 # map (\<lambda>i. progress_pct i ?n) [0..<?n]"
    using rf(6) tr(2) by simp
  have "last (map (\<lambda>i. progress_pct i ?n) [0..<?n]) = progress_pct (?n - 1) ?n"
    using n by (simp add: last_map m)
  then have c3: "last (progress_calls ?st') = 100"
    using n c2 progress_pct_full[OF n] by simp
  have "updateProgress ?st' = progress_pct m ?n"
    using rf(8) in_flight_updateProgress[of m "seen_data h" query now st] m by simp
  then have c4: "updateProgress ?st' = 100"
    using progress_pct_full[OF n] m by simp
  have rm: "map_of (resultsMap ?st') x = outcome_of query ?ps x" for x
    using rf(4) tr(4) by simp
  have c5: "\<forall>(a', d') \<in> set ?ps. \<forall>r. query a' d' = Inr r \<longrightarrow> map_of (resultsMap ?st') a' = Some r"
    using outcome_of_succeeded[where q=query and ps="?ps", OF distinct_uniquePairs] rm by auto
  have c6: "map_of (resultsMap ?st') a = None"
    using outcome_of_failed[where q=query, OF distinct_uniquePairs assms(2,3)] rm by simp
  have "(''Failed to update '' @ a, e) \<in>
        set (concat (map (\<lambda>(a, d). case query a d of Inr r \<Rightarrow> [] | Inl e \<Rightarrow> [(''Failed to update '' @ a, e)]) ?ps))"
    using assms(2,3) by (auto intro!: bexI[of _ "(a, d)"])
  then have c7: "(''Failed to update '' @ a, e) \<in> set (console_error ?st')"
    using rf(7) tr(3) by simp
  have c8: "data ?st' = refresh_data (resultsMap ?st') (now (?n - 1)) (data st)"
    using rf(1) rf(4) in_flight_data[of m "seen_data h" query now st] m by simp
  have nth: "data ?st' ! j = refresh_item (resultsMap ?st') (now (?n - 1) j) (data st ! j)"
    if "j < length (data st)" for j
    by (subst c8) (simp add: nth_refresh_data[OF that])
  have c9: "\<forall>j < length (data st). toLowerCase (aAddress (data st ! j)) = a \<longrightarrow>
            data ?st' ! j = data st ! j"
    using nth c6 by (simp add: refresh_item_absent)
  have c10: "length (data ?st') = length (data st)"
    by (subst c8) simp
  have c11: "\<forall>j < length (data st). \<forall>d' r.
            (toLowerCase (aAddress (data st ! j)), d') \<in> set ?ps \<and>
            query (toLowerCase (aAddress (data st ! j))) d' = Inr r \<longrightarrow>
            data ?st' ! j =
              (data st ! j)
                \<lparr>totalStaking_s := Some (toString (totalStaking r)),
                 airdropEnergyStaking_s := Some (toString (airdropEnergyStaking r)),
                 bondStaking_s := Some (toString (bondStaking r)),
                 zhuwangReward_s := Some (toString (zhuwangReward r)),
                 turbineBalance_s := Some (toString (turbineBalance r)),
                 lgnsBalance_s := Some (toString (lgnsBalance r)),
                 slgnsBalance_s := Some (toString (slgnsBalance r)),
                 lastUpdated := Some (now (?n - 1) j)\<rparr>"
  proof (intro allI impI)
    fix j d' r
    assume j: "j < length (data st)"
      and p: "(toLowerCase (aAddress (data st ! j)), d') \<in> set ?ps \<and>
              query (toLowerCase (aAddress (data st ! j))) d' = Inr r"
    from p c5 have "map_of (resultsMap ?st') (toLowerCase (aAddress (data st ! j))) = Some r"
      by blast
    then show "data ?st' ! j =
              (data st ! j)
                \<lparr>totalStaking_s := Some (toString (totalStaking r)),
                 airdropEnergyStaking_s := Some (toString (airdropEnergyStaking r)),
                 bondStaking_s := Some (toString (bondStaking r)),
                 zhuwangReward_s := Some (toString (zhuwangReward r)),
                 turbineBalance_s := Some (toString (turbineBalance r)),
                 lgnsBalance_s := Some (toString (lgnsBalance r)),
                 slgnsBalance_s := Some (toString (slgnsBalance r)),
                 lastUpdated := Some (now (?n - 1) j)\<rparr>"
      by (simp add: nth[OF j] refresh_item_def)
  qed
  show ?thesis
    using c1 c2 c3 c4 c5 c6 c7 c9 c10 c11 rf(2) rf(3) by (intro conjI)
qed

theorem partial_failure_isolated_witness:
  "\<not> seen_isUpdating (render (idle_state three_items)) \<and>
   (''0xbb49265de8deea9d56f4ff928578eae5c6de4e52'', ''0x703112EdB63b86adaFC72c14D4945BEa4649a352'')
      \<in> set (uniquePairs (seen_data (render (idle_state three_items)))) \<and>
   query_failing_second ''0xbb49265de8deea9d56f4ff928578eae5c6de4e52''
      ''0x703112EdB63b86adaFC72c14D4945BEa4649a352'' = Inl NetworkError \<and>
   progress_calls (runBatchUpdate query_failing_second clock0 (render (idle_state three_items))
      (idle_state three_items)) = [0, 33, 67, 100] \<and>
   totalStaking_s (data (runBatchUpdate query_failing_second clock0 (render (idle_state three_items))
      (idle_state three_items)) ! 2) = Some ''7'' \<and>
   lastUpdated (data (runBatchUpdate query_failing_second clock0 (render (idle_state three_items))
      (idle_state three_items)) ! 2) = Some 1700000000002 \<and>
   data (runBatchUpdate query_failing_second clock0 (render (idle_state three_items))
      (idle_state three_items)) ! 1 = three_items ! 1 \<and>
   (''Failed to update 0xbb49265de8deea9d56f4ff928578eae5c6de4e52'', NetworkError)
      \<in> set (console_error (runBatchUpdate query_failing_second clock0 (render (idle_state three_items))
             (idle_state three_items)))"
proof -
  let ?h = "render (idle_state three_items)"
  let ?st = "idle_state three_items"
  have h1: "\<not> seen_isUpdating ?h" by (simp add: idle_state_def render_def)
  have sd: "seen_data ?h = three_items" "data ?st = three_items" "progress_calls ?st = []"
    by (simp_all add: idle_state_def render_def)
  have u: "uniquePairs three_items =
     [(''0x999c9cfee1fd3c13cac00797b48382e5eb2be12e'', ''0x8C666Bf050D99187a65675701FAcC28AaBA46e71''),
      (''0xbb49265de8deea9d56f4ff928578eae5c6de4e52'', ''0x703112EdB63b86adaFC72c14D4945BEa4649a352''),
      (''0x549d70813a98ad2fe8ef5c59a24ce4d3ce4054da'', ''0x60deE537A4dE4581D5Dd0F120818d816Bb2E06bc'')]"
    by code_simp
  have h2: "(''0xbb49265de8deea9d56f4ff928578eae5c6de4e52'', ''0x703112EdB63b86adaFC72c14D4945BEa4649a352'')
      \<in> set (uniquePairs (seen_data ?h))" by (simp add: sd u)
  have h3: "query_failing_second ''0xbb49265de8deea9d56f4ff928578eae5c6de4e52''
      ''0x703112EdB63b86adaFC72c14D4945BEa4649a352'' = Inl NetworkError"
    by (simp add: query_failing_second_def)
  note T = partial_failure_isolated[where query=query_failing_second and now=clock0 and st="?st",
             OF h1 h2 h3]
  have pct: "progress_pct 0 (Suc (Suc (Suc 0))) = 33" "progress_pct (Suc 0) (Suc (Suc (Suc 0))) = 67"
    "progress_pct (Suc (Suc 0)) (Suc (Suc (Suc 0))) = 100"
    by code_simp+
  have p: "progress_calls (runBatchUpdate query_failing_second clock0 ?h ?st) = [0, 33, 67, 100]"
    using T[THEN conjunct2, THEN conjunct1] by (simp add: sd u pct)
  have k2: "toLowerCase (aAddress (three_items ! 2)) = ''0x549d70813a98ad2fe8ef5c59a24ce4d3ce4054da''"
    by code_simp
  have k1: "toLowerCase (aAddress (three_items ! Suc 0)) = ''0xbb49265de8deea9d56f4ff928578eae5c6de4e52''"
    by code_simp
  have len: "length three_items = 3" by (simp add: three_items_def)
  have q2: "query_failing_second ''0x549d70813a98ad2fe8ef5c59a24ce4d3ce4054da''
              ''0x60deE537A4dE4581D5Dd0F120818d816Bb2E06bc'' = Inr example_snapshot"
    by (simp add: query_failing_second_def)
  have upd: "data (runBatchUpdate query_failing_second clock0 ?h ?st) ! 2 =
      (three_items ! 2)
        \<lparr>totalStaking_s := Some (toString (totalStaking example_snapshot)),
         airdropEnergyStaking_s := Some (toString (airdropEnergyStaking example_snapshot)),
         bondStaking_s := Some (toString (bondStaking example_snapshot)),
         zhuwangReward_s := Some (toString (zhuwangReward example_snapshot)),
         turbineBalance_s := Some (toString (turbineBalance example_snapshot)),
         lgnsBalance_s := Some (toString (lgnsBalance example_snapshot)),
         slgnsBalance_s := Some (toString (slgnsBalance example_snapshot)),
         lastUpdated := Some (clock0 (length (uniquePairs (seen_data ?h)) - 1) 2)\<rparr>"
    using T[THEN conjunct2, THEN conjunct2, THEN conjunct2, THEN conjunct2, THEN conjunct2,
            THEN conjunct2, THEN conjunct1, rule_format, of 2
              "''0x60deE537A4dE4581D5Dd0F120818d816Bb2E06bc''" example_snapshot]
    by (simp add: sd u k2 q2 len)
  have ts: "totalStaking_s (data (runBatchUpdate query_failing_second clock0 ?h ?st) ! 2) = Some ''7''"
    unfolding upd by (simp add: example_snapshot_def toString_def)
  have lu: "lastUpdated (data (runBatchUpdate query_failing_second clock0 ?h ?st) ! 2) = Some 1700000000002"
    unfolding upd by (simp add: sd u clock0_def)
  have same: "data (runBatchUpdate query_failing_second clock0 ?h ?st) ! 1 = three_items ! 1"
    using T[THEN conjunct2, THEN conjunct2, THEN conjunct2, THEN conjunct2, THEN conjunct2,
            THEN conjunct2, THEN conjunct2, THEN conjunct2, THEN conjunct2, THEN conjunct1,
            rule_format, of 1]
    by (simp add: sd k1 len)
  have ce: "(''Failed to update 0xbb49265de8deea9d56f4ff928578eae5c6de4e52'', NetworkError)
      \<in> set (console_error (runBatchUpdate query_failing_second clock0 ?h ?st))"
    using T[THEN conjunct2, THEN conjunct2, THEN conjunct2, THEN conjunct2, THEN conjunct2,
            THEN conjunct2, THEN conjunct2, THEN conjunct2, THEN conjunct1]
    by simp
  show ?thesis using h1 h2 h3 p ts lu same ce by (intro conjI)
qed

text \<open>
  C9 (as amended). The run logic carries a guard of its own, line 76, besides the disabled
  button: an invocation through a handler whose render saw \<open>isUpdating\<close> set returns at
  once, issues no query and changes nothing, and the handler rendered from any state of a
  run in flight is such a handler. The guard does not enforce one run at a time in every
  case: an invocation through a handler whose render saw \<open>isUpdating\<close> clear is not
  rejected, even when a run is in flight; it issues all its queries.
\<close>

theorem overlap_guard_reads_the_render:
  "(seen_isUpdating h \<longrightarrow> runBatchUpdate query' now' h st = st) \<and>
   seen_isUpdating (render (in_flight query now items st k)) \<and>
   runBatchUpdate query' now' (render (in_flight query now items st k)) (in_flight query now items st k) =
     in_flight query now items st k \<and>
   (\<not> seen_isUpdating h \<longrightarrow>
      query_calls (runBatchUpdate query' now' h (in_flight query now items st k)) =
        query_calls (in_flight query now items st k) @ uniquePairs (seen_data h))"
proof (intro conjI impI)
  show "runBatchUpdate query' now' h st = st" if "seen_isUpdating h"
    using that by (simp add: runBatchUpdate_def)
  show r: "seen_isUpdating (render (in_flight query now items st k))"
    using in_flight_simple(1)[of query now items st k] by (simp add: render_def)
  show "runBatchUpdate query' now' (render (in_flight query now items st k))
          (in_flight query now items st k) = in_flight query now items st k"
    using r by (simp add: runBatchUpdate_def)
  show "query_calls (runBatchUpdate query' now' h (in_flight query now items st k)) =
        query_calls (in_flight query now items st k) @ uniquePairs (seen_data h)"
    if "\<not> seen_isUpdating h"
    using run_fields(5)[OF that, of query' now' "in_flight query now items st k"]
          in_flight_traces(1)[of "length (uniquePairs (seen_data h))" "seen_data h" query' now'
                                 "in_flight query now items st k"]
    by simp
qed

theorem overlap_guard_reads_the_render_witness:
  "seen_isUpdating (render (in_flight query_ok clock0 three_items (idle_state three_items) 1)) \<and>
   runBatchUpdate query_ok clock0
     (render (in_flight query_ok clock0 three_items (idle_state three_items) 1))
     (in_flight query_ok clock0 three_items (idle_state three_items) 1) =
     in_flight query_ok clock0 three_items (idle_state three_items) 1 \<and>
   \<not> seen_isUpdating (render (idle_state three_items)) \<and>
   length (query_calls (runBatchUpdate query_ok clock0 (render (idle_state three_items))
     (in_flight query_ok clock0 three_items (idle_state three_items) 1))) = 4"
proof -
  let ?mid = "in_flight query_ok clock0 three_items (idle_state three_items) 1"
  let ?h0 = "render (idle_state three_items)"
  note T = overlap_guard_reads_the_render[where h="render ?mid" and query'=query_ok and now'=clock0
             and query=query_ok and now=clock0 and items=three_items
             and st="idle_state three_items" and k=1]
  note T0 = overlap_guard_reads_the_render[where h="?h0" and query'=query_ok and now'=clock0
             and query=query_ok and now=clock0 and items=three_items
             and st="idle_state three_items" and k=1]
  have h0: "\<not> seen_isUpdating ?h0" by (simp add: idle_state_def render_def)
  have sd: "seen_data ?h0 = three_items" by (simp add: idle_state_def render_def)
  have u: "length (uniquePairs three_items) = 3" by code_simp
  have q1: "length (query_calls ?mid) = 1"
    using in_flight_traces(1)[of 1 three_items query_ok clock0 "idle_state three_items"] u
    by (simp add: idle_state_def)
  have "query_calls (runBatchUpdate query_ok clock0 ?h0 ?mid) = query_calls ?mid @ uniquePairs (seen_data ?h0)"
    using T0[THEN conjunct2, THEN conjunct2, THEN conjunct2] h0 by blast
  then have four: "length (query_calls (runBatchUpdate query_ok clock0 ?h0 ?mid)) = 4"
    using q1 u by (simp add: sd)
  show ?thesis
    using T[THEN conjunct2, THEN conjunct1] T[THEN conjunct2, THEN conjunct2, THEN conjunct1] h0 four
    by (intro conjI)
qed

text \<open>
  C9 (as stated) fails: after one iteration of a run over three addresses, an invocation
  through the handler of that moment is rejected by line 76 of the run logic itself; the
  only query issued so far is the one of the first run.
\<close>

theorem unguarded_overlap_counterexample:
  "seen_isUpdating (render (in_flight query_ok clock0 three_items (idle_state three_items) 1)) \<and>
   query_calls (runBatchUpdate query_ok clock0
      (render (in_flight query_ok clock0 three_items (idle_state three_items) 1))
      (in_flight query_ok clock0 three_items (idle_state three_items) 1)) =
     [(''0x999c9cfee1fd3c13cac00797b48382e5eb2be12e'', ''0x8C666Bf050D99187a65675701FAcC28AaBA46e71'')] \<and>
   runBatchUpdate query_ok clock0
      (render (in_flight query_ok clock0 three_items (idle_state three_items) 1))
      (in_flight query_ok clock0 three_items (idle_state three_items) 1) =
     in_flight query_ok clock0 three_items (idle_state three_items) 1"
  by code_simp

section \<open>Properties of the raw total-staking query\<close>

lemma length_TEMPLATE_PREFIX: "length TEMPLATE_PREFIX = 1450"
  by (simp add: TEMPLATE_PREFIX_def)

lemma length_TEMPLATE_SUFFIX: "length TEMPLATE_SUFFIX = 56"
  by (simp add: TEMPLATE_SUFFIX_def)

lemma length_toLowerCase [simp]: "length (toLowerCase s) = length s"
  by (simp add: toLowerCase_def)

text \<open>
  C8. The payload of \<open>queryTotalStaking\<close> for a 42-character address is the 1450
  characters of the template before the slot, the 40 lower-cased characters of the address
  without its \<open>0x\<close>, and the 56 characters of the template after the slot: 1546 characters
  in all, the slot being bytes 724 to 743 of the payload. It is the only request the
  query makes: two networks that answer it alike give the same result.
\<close>

theorem address_slot_in_payload:
  assumes "length address = 42"
  shows "take 1450 (totalStaking_callData address) = TEMPLATE_PREFIX \<and>
         take 40 (drop 1450 (totalStaking_callData address)) = toLowerCase (drop 2 address) \<and>
         drop 1490 (totalStaking_callData address) = TEMPLATE_SUFFIX \<and>
         length (totalStaking_callData address) = 1546 \<and>
         (\<forall>net net'. eth_call net' (TOTAL_STAKING_QUERY_CONTRACT cfg) (totalStaking_callData address) =
                       eth_call net (TOTAL_STAKING_QUERY_CONTRACT cfg) (totalStaking_callData address) \<longrightarrow>
                     queryTotalStaking net' cfg address = queryTotalStaking net cfg address)"
proof -
  have l: "length (toLowerCase (drop 2 address)) = 40" using assms by simp
  show ?thesis
    using assms
    by (simp add: totalStaking_callData_def Let_def length_TEMPLATE_PREFIX length_TEMPLATE_SUFFIX l
                  queryTotalStaking_def queryTotalStaking_try_def)
qed

theorem address_slot_in_payload_witness:
  "length ''0x99a57e6c8558bc6689f894e068733adf83c19725'' = 42 \<and>
   take 40 (drop 1450 (totalStaking_callData ''0x99a57e6c8558bc6689f894e068733adf83c19725'')) =
     ''99a57e6c8558bc6689f894e068733adf83c19725''"
proof -
  have h: "length ''0x99a57e6c8558bc6689f894e068733adf83c19725'' = 42" by simp
  have l: "toLowerCase (drop 2 ''0x99a57e6c8558bc6689f894e068733adf83c19725'') =
           ''99a57e6c8558bc6689f894e068733adf83c19725''"
    by (simp add: toLowerCase_def lower_char_def)
  show ?thesis
    using address_slot_in_payload[OF h] l by simp
qed

lemma BigInt_bytes_nonneg: "BigInt_bytes bs = Inr v \<Longrightarrow> 0 \<le> v"
proof -
  have "0 \<le> acc \<Longrightarrow> 0 \<le> foldl (\<lambda>acc b. acc * 256 + int (unat b)) acc bs" for acc :: int
    by (induction bs arbitrary: acc) simp_all
  from this[of 0] show "BigInt_bytes bs = Inr v \<Longrightarrow> 0 \<le> v"
    by (auto simp: BigInt_bytes_def split: if_splits)
qed

text \<open>
  C5. \<open>queryTotalStaking\<close> always resolves. It resolves with the number read from
  \<open>results[1]\<close> when the call returns a non-empty answer that decodes to
  \<open>(successes, results)\<close> with \<open>results.length > 1\<close> and \<open>successes[1]\<close> true (and
  \<open>results[1]\<close> converts to a number); a result other than 0 arises in no other way; a
  rejected call and an answer that does not decode give 0.
\<close>

theorem queryTotalStaking_never_fails:
  "(\<exists>v. queryTotalStaking net cfg address = Inr v) \<and>
   (\<forall>r successes results v.
      eth_call net (TOTAL_STAKING_QUERY_CONTRACT cfg) (totalStaking_callData address) = Inr r \<and>
      r \<noteq> [] \<and> r \<noteq> ''0x'' \<and> decode_multiCall cfg r = Inr (successes, results) \<and>
      1 < length results \<and> 1 < length successes \<and> successes ! 1 \<and>
      BigInt_bytes (results ! 1) = Inr v \<longrightarrow>
      queryTotalStaking net cfg address = Inr v) \<and>
   (queryTotalStaking net cfg address \<noteq> Inr 0 \<longrightarrow>
      (\<exists>r successes results v.
         eth_call net (TOTAL_STAKING_QUERY_CONTRACT cfg) (totalStaking_callData address) = Inr r \<and>
         r \<noteq> [] \<and> r \<noteq> ''0x'' \<and> decode_multiCall cfg r = Inr (successes, results) \<and>
         1 < length results \<and> 1 < length successes \<and> successes ! 1 \<and>
         BigInt_bytes (results ! 1) = Inr v \<and> queryTotalStaking net cfg address = Inr v)) \<and>
   (\<forall>e. eth_call net (TOTAL_STAKING_QUERY_CONTRACT cfg) (totalStaking_callData address) = Inl e \<longrightarrow>
      queryTotalStaking net cfg address = Inr 0) \<and>
   (\<forall>r e. eth_call net (TOTAL_STAKING_QUERY_CONTRACT cfg) (totalStaking_callData address) = Inr r \<and>
      decode_multiCall cfg r = Inl e \<longrightarrow>
      queryTotalStaking net cfg address = Inr 0) \<and>
   (\<forall>r successes results.
      eth_call net (TOTAL_STAKING_QUERY_CONTRACT cfg) (totalStaking_callData address) = Inr r \<and>
      decode_multiCall cfg r = Inr (successes, results) \<and>
      \<not> (1 < length results \<and> 1 < length successes \<and> successes ! 1) \<longrightarrow>
      queryTotalStaking net cfg address = Inr 0)"
proof (intro conjI)
  show "\<exists>v. queryTotalStaking net cfg address = Inr v"
    by (simp add: queryTotalStaking_def split: sum.splits option.splits)
next
  show "\<forall>r successes results v.
      eth_call net (TOTAL_STAKING_QUERY_CONTRACT cfg) (totalStaking_callData address) = Inr r \<and>
      r \<noteq> [] \<and> r \<noteq> ''0x'' \<and> decode_multiCall cfg r = Inr (successes, results) \<and>
      1 < length results \<and> 1 < length successes \<and> successes ! 1 \<and>
      BigInt_bytes (results ! 1) = Inr v \<longrightarrow>
      queryTotalStaking net cfg address = Inr v"
    by (simp add: queryTotalStaking_def queryTotalStaking_try_def)
next
  show "queryTotalStaking net cfg address \<noteq> Inr 0 \<longrightarrow>
      (\<exists>r successes results v.
         eth_call net (TOTAL_STAKING_QUERY_CONTRACT cfg) (totalStaking_callData address) = Inr r \<and>
         r \<noteq> [] \<and> r \<noteq> ''0x'' \<and> decode_multiCall cfg r = Inr (successes, results) \<and>
         1 < length results \<and> 1 < length successes \<and> successes ! 1 \<and>
         BigInt_bytes (results ! 1) = Inr v \<and> queryTotalStaking net cfg address = Inr v)"
    by (auto simp: queryTotalStaking_def queryTotalStaking_try_def
             split: sum.splits option.splits if_splits prod.splits)
next
  show "\<forall>e. eth_call net (TOTAL_STAKING_QUERY_CONTRACT cfg) (totalStaking_callData address) = Inl e \<longrightarrow>
      queryTotalStaking net cfg address = Inr 0"
    by (simp add: queryTotalStaking_def queryTotalStaking_try_def)
next
  show "\<forall>r e. eth_call net (TOTAL_STAKING_QUERY_CONTRACT cfg) (totalStaking_callData address) = Inr r \<and>
      decode_multiCall cfg r = Inl e \<longrightarrow>
      queryTotalStaking net cfg address = Inr 0"
    by (auto simp: queryTotalStaking_def queryTotalStaking_try_def)
next
  show "\<forall>r successes results.
      eth_call net (TOTAL_STAKING_QUERY_CONTRACT cfg) (totalStaking_callData address) = Inr r \<and>
      decode_multiCall cfg r = Inr (successes, results) \<and>
      \<not> (1 < length results \<and> 1 < length successes \<and> successes ! 1) \<longrightarrow>
      queryTotalStaking net cfg address = Inr 0"
    by (auto simp: queryTotalStaking_def queryTotalStaking_try_def)
qed

theorem queryTotalStaking_never_fails_witness:
  "eth_call (example_network ''0x02'') (TOTAL_STAKING_QUERY_CONTRACT example_config)
     (totalStaking_callData example_address) = Inr ''0x01'' \<and>
   decode_multiCall example_config ''0x01'' = Inr ([True, True], [[], [1, 0]]) \<and>
   BigInt_bytes [1, 0] = Inr 256 \<and>
   queryTotalStaking (example_network ''0x02'') example_config example_address = Inr 256 \<and>
   eth_call dead_network (TOTAL_STAKING_QUERY_CONTRACT example_config)
     (totalStaking_callData example_address) = Inl NetworkError \<and>
   queryTotalStaking dead_network example_config example_address = Inr 0"
proof -
  have h1: "eth_call (example_network ''0x02'') (TOTAL_STAKING_QUERY_CONTRACT example_config)
     (totalStaking_callData example_address) = Inr ''0x01''"
    by (simp add: example_network_def)
  have h2: "decode_multiCall example_config ''0x01'' = Inr ([True, True], [[], [1, 0]])"
    by (simp add: example_config_def)
  have h3: "BigInt_bytes [1, 0] = Inr 256" by (simp add: BigInt_bytes_def)
  have h4: "eth_call dead_network (TOTAL_STAKING_QUERY_CONTRACT example_config)
     (totalStaking_callData example_address) = Inl NetworkError"
    by (simp add: dead_network_def)
  have a: "queryTotalStaking (example_network ''0x02'') example_config example_address = Inr 256"
    by (rule queryTotalStaking_never_fails[of "example_network ''0x02''" example_config example_address,
               THEN conjunct2, THEN conjunct1, rule_format,
               of "''0x01''" "[True, True]" "[[], [1, 0]]" 256])
       (simp add: h1 h2 h3)
  have b: "queryTotalStaking dead_network example_config example_address = Inr 0"
    by (rule queryTotalStaking_never_fails[of dead_network example_config example_address,
               THEN conjunct2, THEN conjunct2, THEN conjunct2, THEN conjunct1, rule_format, OF h4])
  show ?thesis using h1 h2 h3 h4 a b by (intro conjI)
qed

section \<open>Properties of the variable-length collection fetcher\<close>

lemma add_items_shift:
  "add_items abi ex rs t = (t + fst (add_items abi ex rs 0), snd (add_items abi ex rs 0))"
proof (induction rs arbitrary: t)
  case Nil
  then show ?case by simp
next
  case (Cons r rs)
  show ?case
  proof (cases "success r")
    case False
    then show ?thesis using Cons[of t] by simp
  next
    case True
    show ?thesis
    proof (cases "decodeItem abi (returnData r)")
      case (Inl e)
      with True show ?thesis by simp
    next
      case (Inr d)
      with True show ?thesis
        using Cons[of "t + ex d"] Cons[of "ex d"] by simp
    qed
  qed
qed

lemma add_items_nonneg:
  assumes "\<And>d. 0 \<le> ex d" "0 \<le> t"
  shows "0 \<le> fst (add_items abi ex rs t)"
  using assms(2)
proof (induction rs arbitrary: t)
  case Nil
  then show ?case by simp
next
  case (Cons r rs)
  then show ?case
    using assms(1) by (auto split: sum.splits)
qed

lemma chunks_Nil [simp]: "chunks n [] = []"
  by (subst chunks.simps) simp

lemma chunks_drop:
  "i < length xs \<Longrightarrow> chunks CHUNK_SIZE (drop i xs) =
     take CHUNK_SIZE (drop i xs) # chunks CHUNK_SIZE (drop (i + CHUNK_SIZE) xs)"
  by (subst chunks.simps) (simp add: CHUNK_SIZE_def add.commute)

lemma chunks_done: "\<not> i < length xs \<Longrightarrow> chunks CHUNK_SIZE (drop i xs) = []"
  by (subst chunks.simps) simp

lemma chunk_loop_all_ok:
  assumes "\<forall>c \<in> set (chunks CHUNK_SIZE (drop i itemCalls)). chunk_ok net abi ex c"
  shows "chunk_loop net abi ex itemCalls i run =
           run\<lparr>run_total := run_total run +
                   sum_list (map (chunk_sum net abi ex) (chunks CHUNK_SIZE (drop i itemCalls))),
               round_trips := round_trips run @ chunks CHUNK_SIZE (drop i itemCalls)\<rparr>"
  using assms
proof (induction net abi ex itemCalls i run rule: chunk_loop.induct)
  case (1 net abi ex itemCalls i run)
  show ?case
  proof (cases "i < length itemCalls")
    case False
    then show ?thesis
      by (subst chunk_loop.simps) (simp add: chunks_done)
  next
    case True
    let ?chunk = "take CHUNK_SIZE (drop i itemCalls)"
    let ?run1 = "run\<lparr>round_trips := round_trips run @ [?chunk]\<rparr>"
    note cd = chunks_drop[OF True]
    from "1.prems" have ok: "chunk_ok net abi ex ?chunk"
      and rest: "\<forall>c \<in> set (chunks CHUNK_SIZE (drop (i + CHUNK_SIZE) itemCalls)). chunk_ok net abi ex c"
      by (simp_all add: cd)
    from ok obtain rs where rs: "tryAggregate net ?chunk = Inr rs"
      and none: "snd (add_items abi ex rs 0) = None"
      by (auto simp: chunk_ok_def split: sum.splits)
    have sum: "chunk_sum net abi ex ?chunk = fst (add_items abi ex rs 0)"
      by (simp add: chunk_sum_def rs)
    have ai: "add_items abi ex rs (run_total ?run1) = (run_total run + fst (add_items abi ex rs 0), None)"
      using add_items_shift[of abi ex rs "run_total run"] none by simp
    have "chunk_loop net abi ex itemCalls i run =
          chunk_loop net abi ex itemCalls (i + CHUNK_SIZE)
            (?run1\<lparr>run_total := run_total run + fst (add_items abi ex rs 0)\<rparr>)"
      using True rs ai by (subst chunk_loop.simps) (simp add: Let_def)
    also have "\<dots> = (?run1\<lparr>run_total := run_total run + fst (add_items abi ex rs 0)\<rparr>)
           \<lparr>run_total := run_total (?run1\<lparr>run_total := run_total run + fst (add_items abi ex rs 0)\<rparr>) +
                   sum_list (map (chunk_sum net abi ex) (chunks CHUNK_SIZE (drop (i + CHUNK_SIZE) itemCalls))),
               round_trips := round_trips (?run1\<lparr>run_total := run_total run + fst (add_items abi ex rs 0)\<rparr>) @
                   chunks CHUNK_SIZE (drop (i + CHUNK_SIZE) itemCalls)\<rparr>"
      using "1.IH"[OF True refl refl rs _ _ rest, of "run_total run + fst (add_items abi ex rs 0)" None]
            ai
      by simp
    also have "\<dots> = run\<lparr>run_total := run_total run +
                   sum_list (map (chunk_sum net abi ex) (chunks CHUNK_SIZE (drop i itemCalls))),
               round_trips := round_trips run @ chunks CHUNK_SIZE (drop i itemCalls)\<rparr>"
      by (simp add: cd sum)
    finally show ?thesis .
  qed
qed

lemma chunks_120:
  assumes "length xs = 120"
  shows "chunks CHUNK_SIZE xs = [take 50 xs, take 50 (drop 50 xs), drop 100 xs]"
proof -
  have "chunks CHUNK_SIZE xs = take 50 xs # chunks CHUNK_SIZE (drop 50 xs)"
    using chunks_drop[of 0 xs] assms by (simp add: CHUNK_SIZE_def)
  also have "chunks CHUNK_SIZE (drop 50 xs) = take 50 (drop 50 xs) # chunks CHUNK_SIZE (drop 100 xs)"
    using chunks_drop[of 50 xs] assms by (simp add: CHUNK_SIZE_def)
  also have "chunks CHUNK_SIZE (drop 100 xs) = take 50 (drop 100 xs) # chunks CHUNK_SIZE (drop 150 xs)"
    using chunks_drop[of 100 xs] assms by (simp add: CHUNK_SIZE_def)
  also have "chunks CHUNK_SIZE (drop 150 xs) = []"
    using assms by simp
  also have "take 50 (drop 100 xs) = drop 100 xs"
    using assms by simp
  finally show ?thesis .
qed

lemma run_all_ok:
  assumes "tryAggregate net (countCalls abi address contracts) = Inr countsResults"
      and "enqueue_items abi address contracts 0 countsResults = Inr itemCalls"
      and "\<forall>c \<in> set (chunks CHUNK_SIZE itemCalls). chunk_ok net abi ex c"
  shows "batchQueryDynamicDetails_run net address contracts abi ex =
           \<lparr>run_total = sum_list (map (chunk_sum net abi ex) (chunks CHUNK_SIZE itemCalls)),
            round_trips = countCalls abi address contracts # chunks CHUNK_SIZE itemCalls,
            caught = None\<rparr>"
proof (cases "itemCalls = []")
  case True
  then show ?thesis
    using assms(1,2) by (simp add: batchQueryDynamicDetails_run_def)
next
  case False
  then show ?thesis
    using assms(1,2) chunk_loop_all_ok[of 0 itemCalls net abi ex] assms(3)
    by (simp add: batchQueryDynamicDetails_run_def)
qed

text \<open>
  C6. When the count phase enqueues 120 item calls and every chunk is fetched and decoded
  without an error, the item phase makes exactly three round trips, of the first 50, the
  next 50 and the last 20 calls, and the total returned is the sum of the three chunk
  sums, each computed on its own.
\<close>

theorem chunked_item_fetch:
  assumes "tryAggregate net (countCalls abi address contracts) = Inr countsResults"
      and "enqueue_items abi address contracts 0 countsResults = Inr itemCalls"
      and "length itemCalls = 120"
      and "\<forall>c \<in> set (chunks CHUNK_SIZE itemCalls). chunk_ok net abi resultExtractor c"
  shows "CHUNK_SIZE = 50 \<and>
         round_trips (batchQueryDynamicDetails_run net address contracts abi resultExtractor) =
           [countCalls abi address contracts,
            take 50 itemCalls, take 50 (drop 50 itemCalls), drop 100 itemCalls] \<and>
         map length (tl (round_trips (batchQueryDynamicDetails_run net address contracts abi resultExtractor))) =
           [50, 50, 20] \<and>
         batchQueryDynamicDetails net address contracts abi resultExtractor =
           Inr (chunk_sum net abi resultExtractor (take 50 itemCalls) +
                chunk_sum net abi resultExtractor (take 50 (drop 50 itemCalls)) +
                chunk_sum net abi resultExtractor (drop 100 itemCalls))"
proof -
  note c = chunks_120[OF assms(3)]
  have run: "batchQueryDynamicDetails_run net address contracts abi resultExtractor =
           \<lparr>run_total = sum_list (map (chunk_sum net abi resultExtractor)
                          [take 50 itemCalls, take 50 (drop 50 itemCalls), drop 100 itemCalls]),
            round_trips = countCalls abi address contracts #
                          [take 50 itemCalls, take 50 (drop 50 itemCalls), drop 100 itemCalls],
            caught = None\<rparr>"
    using run_all_ok[OF assms(1,2,4)] unfolding c .
  have "CHUNK_SIZE = 50" by (simp add: CHUNK_SIZE_def)
  then show ?thesis
    using assms(3) by (simp add: run batchQueryDynamicDetails_def)
qed

lemma enqueue_items_targets:
  "enqueue_items abi address contracts idx0 rs = Inr calls \<Longrightarrow>
   \<forall>c \<in> set calls. \<exists>j < length rs. success (rs ! j) \<and> target c = js_index contracts (idx0 + j)"
proof (induction rs arbitrary: idx0 calls)
  case Nil
  then show ?case by simp
next
  case (Cons r rs)
  show ?case
  proof (cases "success r")
    case False
    with Cons.prems have "enqueue_items abi address contracts (Suc idx0) rs = Inr calls" by simp
    from Cons.IH[OF this] show ?thesis by (fastforce intro: exI[of _ "Suc _"])
  next
    case True
    with Cons.prems obtain count rest where
      rest: "enqueue_items abi address contracts (Suc idx0) rs = Inr rest" and
      calls: "calls = map (\<lambda>i. \<lparr>target = js_index contracts idx0, callData = encodeItem abi address i\<rparr>)
                         [0..<count] @ rest"
      by (auto split: sum.splits)
    show ?thesis
    proof
      fix c assume "c \<in> set calls"
      then consider "target c = js_index contracts idx0" | "c \<in> set rest"
        unfolding calls by auto
      then show "\<exists>j < length (r # rs). success ((r # rs) ! j) \<and> target c = js_index contracts (idx0 + j)"
      proof cases
        case 1
        with True show ?thesis by (intro exI[of _ 0]) simp
      next
        case 2
        with Cons.IH[OF rest] obtain j where "j < length rs" "success (rs ! j)"
          "target c = js_index contracts (Suc idx0 + j)" by blast
        then show ?thesis by (intro exI[of _ "Suc j"]) simp
      qed
    qed
  qed
qed

lemma enqueue_items_failed_entry:
  "j < length rs \<Longrightarrow> \<not> success (rs ! j) \<Longrightarrow>
   enqueue_items abi address contracts idx0 (rs[j := \<lparr>success = False, returnData = x\<rparr>]) =
   enqueue_items abi address contracts idx0 rs"
proof (induction rs arbitrary: idx0 j)
  case Nil
  then show ?case by simp
next
  case (Cons r rs)
  show ?case
  proof (cases j)
    case 0
    with Cons.prems show ?thesis by simp
  next
    case (Suc j')
    with Cons.prems have "j' < length rs" "\<not> success (rs ! j')" by simp_all
    from Cons.IH[OF this] show ?thesis by (auto simp: Suc split: sum.splits)
  qed
qed

lemma chunk_loop_round_trips:
  "\<exists>more. round_trips (chunk_loop net abi ex itemCalls i run) = round_trips run @ more \<and>
          (\<forall>trip \<in> set more. set trip \<subseteq> set itemCalls)"
proof (induction net abi ex itemCalls i run rule: chunk_loop.induct)
  case (1 net abi ex itemCalls i run)
  show ?case
  proof (cases "i < length itemCalls")
    case False
    then show ?thesis by (subst chunk_loop.simps) simp
  next
    case True
    let ?chunk = "take CHUNK_SIZE (drop i itemCalls)"
    let ?run1 = "run\<lparr>round_trips := round_trips run @ [?chunk]\<rparr>"
    have sub: "set ?chunk \<subseteq> set itemCalls"
      by (meson set_take_subset set_drop_subset subset_trans)
    show ?thesis
    proof (cases "tryAggregate net ?chunk")
      case (Inl e)
      have "round_trips (chunk_loop net abi ex itemCalls i run) = round_trips run @ [?chunk]"
        using True Inl by (subst chunk_loop.simps) (simp add: Let_def)
      then show ?thesis using sub by (intro exI[of _ "[?chunk]"]) simp
    next
      case (Inr rs)
      obtain t eo where ai: "add_items abi ex rs (run_total ?run1) = (t, eo)"
        by (cases "add_items abi ex rs (run_total ?run1)")
      show ?thesis
      proof (cases eo)
        case (Some e)
        have "round_trips (chunk_loop net abi ex itemCalls i run) = round_trips run @ [?chunk]"
          using True Inr ai Some by (subst chunk_loop.simps) (simp add: Let_def)
        then show ?thesis using sub by (intro exI[of _ "[?chunk]"]) simp
      next
        case None
        have step: "chunk_loop net abi ex itemCalls i run =
              chunk_loop net abi ex itemCalls (i + CHUNK_SIZE) (?run1\<lparr>run_total := t\<rparr>)"
          using True Inr ai None by (subst chunk_loop.simps) (simp add: Let_def)
        have "\<exists>more. round_trips (chunk_loop net abi ex itemCalls (i + CHUNK_SIZE) (?run1\<lparr>run_total := t\<rparr>)) =
                 round_trips (?run1\<lparr>run_total := t\<rparr>) @ more \<and>
                 (\<forall>trip \<in> set more. set trip \<subseteq> set itemCalls)"
          using "1.IH"[OF True refl refl Inr _ _, of t eo] ai None by simp
        then obtain more where
          m: "round_trips (chunk_loop net abi ex itemCalls (i + CHUNK_SIZE) (?run1\<lparr>run_total := t\<rparr>)) =
                 round_trips (?run1\<lparr>run_total := t\<rparr>) @ more"
          and ms: "\<forall>trip \<in> set more. set trip \<subseteq> set itemCalls" by blast
        show ?thesis
          using m ms sub unfolding step by (intro exI[of _ "?chunk # more"]) simp
      qed
    qed
  qed
qed

lemma run_item_trips:
  assumes "tryAggregate net (countCalls abi address contracts) = Inr countsResults"
      and "enqueue_items abi address contracts 0 countsResults = Inr itemCalls"
  shows "\<forall>trip \<in> set (tl (round_trips (batchQueryDynamicDetails_run net address contracts abi ex))).
           set trip \<subseteq> set itemCalls"
proof (cases "itemCalls = []")
  case True
  then show ?thesis using assms by (simp add: batchQueryDynamicDetails_run_def)
next
  case False
  let ?run0 = "\<lparr>run_total = 0, round_trips = [countCalls abi address contracts], caught = None\<rparr>"
  have run: "batchQueryDynamicDetails_run net address contracts abi ex =
             chunk_loop net abi ex itemCalls 0 ?run0"
    using assms False by (simp add: batchQueryDynamicDetails_run_def)
  obtain more where "round_trips (chunk_loop net abi ex itemCalls 0 ?run0) = round_trips ?run0 @ more"
    and "\<forall>trip \<in> set more. set trip \<subseteq> set itemCalls"
    using chunk_loop_round_trips[of net abi ex itemCalls 0 ?run0] by blast
  then show ?thesis by (simp add: run)
qed

lemma run_no_item_trips:
  assumes "\<forall>countsResults itemCalls.
             tryAggregate net (countCalls abi address contracts) = Inr countsResults \<and>
             enqueue_items abi address contracts 0 countsResults = Inr itemCalls \<longrightarrow> itemCalls = []"
  shows "batchQueryDynamicDetails_run net address contracts abi ex =
           \<lparr>run_total = 0, round_trips = [countCalls abi address contracts],
            caught = (case tryAggregate net (countCalls abi address contracts) of
                        Inl e \<Rightarrow> Some e
                      | Inr countsResults \<Rightarrow>
                          (case enqueue_items abi address contracts 0 countsResults of
                             Inl e \<Rightarrow> Some e | Inr itemCalls \<Rightarrow> None))\<rparr>"
  using assms by (auto simp: batchQueryDynamicDetails_run_def split: sum.splits)

lemma enqueue_items_append:
  "enqueue_items abi address contracts idx0 (xs @ ys) =
     (case enqueue_items abi address contracts idx0 xs of
        Inl e \<Rightarrow> Inl e
      | Inr calls \<Rightarrow>
          (case enqueue_items abi address contracts (idx0 + length xs) ys of
             Inl e \<Rightarrow> Inl e
           | Inr calls' \<Rightarrow> Inr (calls @ calls')))"
proof (induction xs arbitrary: idx0)
  case Nil
  show ?case by (simp split: sum.splits)
next
  case (Cons x xs)
  show ?case
    using Cons[of "Suc idx0"] by (simp split: sum.splits)
qed

lemma enqueue_items_same_targets:
  "\<forall>j < length rs. js_index contracts' (idx0' + j) = js_index contracts (idx0 + j) \<Longrightarrow>
   enqueue_items abi address contracts' idx0' rs = enqueue_items abi address contracts idx0 rs"
proof (induction rs arbitrary: idx0 idx0')
  case Nil
  show ?case by simp
next
  case (Cons r rs)
  have hd: "js_index contracts' idx0' = js_index contracts idx0"
    using Cons.prems by fastforce
  have "\<forall>j < length rs. js_index contracts' (Suc idx0' + j) = js_index contracts (Suc idx0 + j)"
    using Cons.prems by fastforce
  from Cons.IH[OF this] show ?case
    by (simp add: hd split: sum.splits)
qed

lemma js_index_without:
  assumes "idx < length contracts"
  shows "j < idx \<Longrightarrow> js_index (without idx contracts) j = js_index contracts j"
    and "js_index (without idx contracts) (idx + j) = js_index contracts (Suc idx + j)"
proof -
  show "j < idx \<Longrightarrow> js_index (without idx contracts) j = js_index contracts j"
    using assms by (auto simp: js_index_def without_def nth_append)
  show "js_index (without idx contracts) (idx + j) = js_index contracts (Suc idx + j)"
    using assms by (auto simp: js_index_def without_def nth_append min_def)
qed

lemma enqueue_items_without:
  assumes "idx < length contracts" "idx < length rs" "\<not> success (rs ! idx)"
  shows "enqueue_items abi address contracts 0 rs =
         enqueue_items abi address (without idx contracts) 0 (without idx rs)"
proof -
  have rs: "rs = take idx rs @ (rs ! idx) # drop (Suc idx) rs"
    using assms(2) by (simp add: id_take_nth_drop)
  have len: "length (take idx rs) = idx" using assms(2) by simp
  have pre: "enqueue_items abi address (without idx contracts) 0 (take idx rs) =
             enqueue_items abi address contracts 0 (take idx rs)"
    using js_index_without(1)[OF assms(1)] by (intro enqueue_items_same_targets) simp
  have suf: "enqueue_items abi address (without idx contracts) idx (drop (Suc idx) rs) =
             enqueue_items abi address contracts (Suc idx) (drop (Suc idx) rs)"
    using js_index_without(2)[OF assms(1)] by (intro enqueue_items_same_targets) simp
  have "enqueue_items abi address contracts 0 rs =
        enqueue_items abi address contracts 0 (take idx rs @ (rs ! idx) # drop (Suc idx) rs)"
    using rs by simp
  also have "\<dots> = (case enqueue_items abi address contracts 0 (take idx rs) of
        Inl e \<Rightarrow> Inl e
      | Inr calls \<Rightarrow>
          (case enqueue_items abi address contracts (Suc idx) (drop (Suc idx) rs) of
             Inl e \<Rightarrow> Inl e
           | Inr calls' \<Rightarrow> Inr (calls @ calls')))"
    using assms(2,3) by (simp add: enqueue_items_append min_def split: sum.splits del: append_take_drop_id)
  also have "\<dots> = enqueue_items abi address (without idx contracts) 0 (take idx rs @ drop (Suc idx) rs)"
    using assms(2) by (simp add: enqueue_items_append min_def pre suf split: sum.splits)
  finally show ?thesis by (simp add: without_def)
qed

lemma enqueue_items_expected_from:
  assumes "\<forall>r \<in> set rs. success r \<longrightarrow> (\<exists>n. decodeCount abi (returnData r) = Inr n)"
  shows "enqueue_items abi address contracts idx0 rs =
         Inr (concat (map (\<lambda>j. if success (rs ! j)
                                then item_calls_for abi address (js_index contracts (idx0 + j))
                                       (decoded_count abi (rs ! j))
                                else [])
                          [0..<length rs]))"
  using assms
proof (induction rs arbitrary: idx0)
  case Nil
  show ?case by simp
next
  case (Cons r rs)
  have ih: "enqueue_items abi address contracts (Suc idx0) rs =
         Inr (concat (map (\<lambda>j. if success (rs ! j)
                                then item_calls_for abi address (js_index contracts (Suc idx0 + j))
                                       (decoded_count abi (rs ! j))
                                else [])
                          [0..<length rs]))"
    using Cons.prems by (intro Cons.IH) simp
  have upt: "[0..<length (r # rs)] = 0 # map Suc [0..<length rs]"
    by (simp add: upt_conv_Cons map_Suc_upt del: upt_Suc)
  show ?case
  proof (cases "success r")
    case False
    then show ?thesis
      unfolding upt by (simp add: ih comp_def cong: if_cong)
  next
    case True
    with Cons.prems obtain n where n: "decodeCount abi (returnData r) = Inr n" by auto
    show ?thesis
      unfolding upt using True n
      by (simp add: ih comp_def item_calls_for_def decoded_count_def cong: if_cong)
  qed
qed

lemma enqueue_items_expected:
  assumes "length rs = length contracts"
      and "\<forall>r \<in> set rs. success r \<longrightarrow> (\<exists>n. decodeCount abi (returnData r) = Inr n)"
  shows "enqueue_items abi address contracts 0 rs = Inr (expected_item_calls abi address contracts rs)"
proof -
  have eq: "map (\<lambda>j. if success (rs ! j)
                then item_calls_for abi address (js_index contracts (0 + j)) (decoded_count abi (rs ! j))
                else []) [0..<length rs] =
        map (\<lambda>j. if success (rs ! j)
                then item_calls_for abi address (contracts ! j) (decoded_count abi (rs ! j))
                else []) [0..<length rs]"
    using assms(1) by (intro map_cong) (auto simp: js_index_def)
  show ?thesis
    unfolding expected_item_calls_def enqueue_items_expected_from[OF assms(2)] eq ..
qed

lemma concat_chunks: "0 < n \<Longrightarrow> concat (chunks n xs) = xs"
proof (induction n xs rule: chunks.induct)
  case (1 n xs)
  show ?case
  proof (cases "xs = []")
    case True
    then show ?thesis by simp
  next
    case False
    then show ?thesis
      using 1 by (subst chunks.simps) simp
  qed
qed

lemma chunk_loop_attempted:
  "run_total (chunk_loop net abi ex itemCalls i run) =
     run_total run +
     sum_list (map (chunk_sum net abi ex) (attempted net abi ex (chunks CHUNK_SIZE (drop i itemCalls)))) \<and>
   round_trips (chunk_loop net abi ex itemCalls i run) =
     round_trips run @ attempted net abi ex (chunks CHUNK_SIZE (drop i itemCalls))"
proof (induction net abi ex itemCalls i run rule: chunk_loop.induct)
  case (1 net abi ex itemCalls i run)
  show ?case
  proof (cases "i < length itemCalls")
    case False
    then show ?thesis by (subst (1 2) chunk_loop.simps) simp
  next
    case True
    let ?chunk = "take CHUNK_SIZE (drop i itemCalls)"
    let ?run1 = "run\<lparr>round_trips := round_trips run @ [?chunk]\<rparr>"
    note cd = chunks_drop[OF True]
    show ?thesis
    proof (cases "tryAggregate net ?chunk")
      case (Inl e)
      have "chunk_loop net abi ex itemCalls i run = ?run1\<lparr>caught := Some e\<rparr>"
        using True Inl by (subst chunk_loop.simps) (simp add: Let_def)
      moreover have "\<not> chunk_ok net abi ex ?chunk" "chunk_sum net abi ex ?chunk = 0"
        using Inl by (simp_all add: chunk_ok_def chunk_sum_def)
      ultimately show ?thesis by (simp add: cd)
    next
      case (Inr rs)
      obtain t eo where ai: "add_items abi ex rs (run_total ?run1) = (t, eo)"
        by (cases "add_items abi ex rs (run_total ?run1)")
      have t: "t = run_total run + fst (add_items abi ex rs 0)" and eo: "eo = snd (add_items abi ex rs 0)"
        using add_items_shift[of abi ex rs "run_total run"] ai by simp_all
      have sum: "chunk_sum net abi ex ?chunk = fst (add_items abi ex rs 0)"
        by (simp add: chunk_sum_def Inr)
      show ?thesis
      proof (cases eo)
        case (Some e)
        have "chunk_loop net abi ex itemCalls i run = ?run1\<lparr>run_total := t, caught := Some e\<rparr>"
          using True Inr ai Some by (subst chunk_loop.simps) (simp add: Let_def)
        moreover have "\<not> chunk_ok net abi ex ?chunk"
          using Inr Some eo by (simp add: chunk_ok_def)
        ultimately show ?thesis by (simp add: cd sum t)
      next
        case None
        have step: "chunk_loop net abi ex itemCalls i run =
              chunk_loop net abi ex itemCalls (i + CHUNK_SIZE) (?run1\<lparr>run_total := t\<rparr>)"
          using True Inr ai None by (subst chunk_loop.simps) (simp add: Let_def)
        have ok: "chunk_ok net abi ex ?chunk"
          using Inr None eo by (simp add: chunk_ok_def)
        have ih: "run_total (chunk_loop net abi ex itemCalls (i + CHUNK_SIZE) (?run1\<lparr>run_total := t\<rparr>)) =
             run_total (?run1\<lparr>run_total := t\<rparr>) +
             sum_list (map (chunk_sum net abi ex)
                (attempted net abi ex (chunks CHUNK_SIZE (drop (i + CHUNK_SIZE) itemCalls)))) \<and>
           round_trips (chunk_loop net abi ex itemCalls (i + CHUNK_SIZE) (?run1\<lparr>run_total := t\<rparr>)) =
             round_trips (?run1\<lparr>run_total := t\<rparr>) @
             attempted net abi ex (chunks CHUNK_SIZE (drop (i + CHUNK_SIZE) itemCalls))"
          using "1.IH"[OF True refl refl Inr _ _, of t eo] ai None by simp
        show ?thesis
          unfolding step using ih ok by (simp add: cd sum t)
      qed
    qed
  qed
qed

lemma run_attempted:
  assumes "tryAggregate net (countCalls abi address contracts) = Inr countsResults"
      and "enqueue_items abi address contracts 0 countsResults = Inr itemCalls"
  shows "batchQueryDynamicDetails net address contracts abi ex =
           Inr (sum_list (map (chunk_sum net abi ex) (attempted net abi ex (chunks CHUNK_SIZE itemCalls))))"
    and "round_trips (batchQueryDynamicDetails_run net address contracts abi ex) =
           countCalls abi address contracts # attempted net abi ex (chunks CHUNK_SIZE itemCalls)"
proof -
  let ?run0 = "\<lparr>run_total = 0, round_trips = [countCalls abi address contracts], caught = None\<rparr>"
  have "run_total (batchQueryDynamicDetails_run net address contracts abi ex) =
          sum_list (map (chunk_sum net abi ex) (attempted net abi ex (chunks CHUNK_SIZE itemCalls))) \<and>
        round_trips (batchQueryDynamicDetails_run net address contracts abi ex) =
          countCalls abi address contracts # attempted net abi ex (chunks CHUNK_SIZE itemCalls)"
  proof (cases "itemCalls = []")
    case True
    then show ?thesis using assms by (simp add: batchQueryDynamicDetails_run_def)
  next
    case False
    then have "batchQueryDynamicDetails_run net address contracts abi ex =
               chunk_loop net abi ex itemCalls 0 ?run0"
      using assms by (simp add: batchQueryDynamicDetails_run_def)
    then show ?thesis
      using chunk_loop_attempted[of net abi ex itemCalls 0 ?run0] by simp
  qed
  then show "batchQueryDynamicDetails net address contracts abi ex =
           Inr (sum_list (map (chunk_sum net abi ex) (attempted net abi ex (chunks CHUNK_SIZE itemCalls))))"
    and "round_trips (batchQueryDynamicDetails_run net address contracts abi ex) =
           countCalls abi address contracts # attempted net abi ex (chunks CHUNK_SIZE itemCalls)"
    by (simp_all add: batchQueryDynamicDetails_def)
qed

lemma run_count_decode_fails:
  assumes "tryAggregate net (countCalls abi address contracts) = Inr countsResults"
      and "enqueue_items abi address contracts 0 countsResults = Inl e"
  shows "batchQueryDynamicDetails net address contracts abi ex = Inr 0"
    and "round_trips (batchQueryDynamicDetails_run net address contracts abi ex) =
           [countCalls abi address contracts]"
  using assms by (simp_all add: batchQueryDynamicDetails_def batchQueryDynamicDetails_run_def)

text \<open>
  C7. When the count call of the contract at position \<open>idx\<close> fails, the fetch still
  resolves with a total; no item call to that contract is part of any round trip; the
  item calls do not depend on the return data of the failed entry, whatever count it
  might encode; they are the item calls of the contract list without that contract, so
  that the total and the item round trips are those of a fetch that was never given the
  contract; and when every count that succeeded decodes, the item calls are those of all
  the contracts whose count succeeded, each with its own count, which all travel and add
  up to the total when no chunk fails.
\<close>

theorem failed_count_contributes_nothing:
  assumes "tryAggregate net (countCalls abi address contracts) = Inr countsResults"
      and "length countsResults = length contracts"
      and "distinct contracts"
      and "idx < length contracts"
      and "\<not> success (countsResults ! idx)"
  shows "(\<exists>v. batchQueryDynamicDetails net address contracts abi resultExtractor = Inr v) \<and>
         (\<forall>trip \<in> set (tl (round_trips (batchQueryDynamicDetails_run net address contracts abi resultExtractor))).
            \<forall>c \<in> set trip. target c \<noteq> contracts ! idx) \<and>
         (\<forall>x. enqueue_items abi address contracts 0
                 (countsResults[idx := \<lparr>success = False, returnData = x\<rparr>]) =
               enqueue_items abi address contracts 0 countsResults) \<and>
         enqueue_items abi address contracts 0 countsResults =
           enqueue_items abi address (without idx contracts) 0 (without idx countsResults) \<and>
         (tryAggregate net (countCalls abi address (without idx contracts)) = Inr (without idx countsResults) \<longrightarrow>
            batchQueryDynamicDetails net address contracts abi resultExtractor =
              batchQueryDynamicDetails net address (without idx contracts) abi resultExtractor \<and>
            tl (round_trips (batchQueryDynamicDetails_run net address contracts abi resultExtractor)) =
              tl (round_trips (batchQueryDynamicDetails_run net address (without idx contracts) abi resultExtractor))) \<and>
         ((\<forall>r \<in> set countsResults. success r \<longrightarrow> (\<exists>n. decodeCount abi (returnData r) = Inr n)) \<longrightarrow>
            enqueue_items abi address contracts 0 countsResults =
              Inr (expected_item_calls abi address contracts countsResults) \<and>
            ((\<forall>c \<in> set (chunks CHUNK_SIZE (expected_item_calls abi address contracts countsResults)).
                 chunk_ok net abi resultExtractor c) \<longrightarrow>
               concat (tl (round_trips (batchQueryDynamicDetails_run net address contracts abi resultExtractor))) =
                 expected_item_calls abi address contracts countsResults \<and>
               batchQueryDynamicDetails net address contracts abi resultExtractor =
                 Inr (sum_list (map (chunk_sum net abi resultExtractor)
                        (chunks CHUNK_SIZE (expected_item_calls abi address contracts countsResults))))))"
proof (intro conjI impI)
  show "\<exists>v. batchQueryDynamicDetails net address contracts abi resultExtractor = Inr v"
    by (simp add: batchQueryDynamicDetails_def)
next
  show "\<forall>x. enqueue_items abi address contracts 0
                 (countsResults[idx := \<lparr>success = False, returnData = x\<rparr>]) =
               enqueue_items abi address contracts 0 countsResults"
    using assms(2,4,5) by (simp add: enqueue_items_failed_entry)
next
  show "\<forall>trip \<in> set (tl (round_trips (batchQueryDynamicDetails_run net address contracts abi resultExtractor))).
            \<forall>c \<in> set trip. target c \<noteq> contracts ! idx"
  proof (cases "enqueue_items abi address contracts 0 countsResults")
    case (Inl e)
    then show ?thesis using assms(1) by (simp add: batchQueryDynamicDetails_run_def)
  next
    case (Inr itemCalls)
    have no: "\<forall>c \<in> set itemCalls. target c \<noteq> contracts ! idx"
    proof
      fix c assume "c \<in> set itemCalls"
      with enqueue_items_targets[OF Inr] obtain j where
        j: "j < length countsResults" "success (countsResults ! j)" "target c = js_index contracts j"
        by auto
      then have "j \<noteq> idx" using assms(5) by auto
      moreover have "target c = contracts ! j" using j assms(2) by (simp add: js_index_def)
      ultimately show "target c \<noteq> contracts ! idx"
        using assms(2,3,4) j(1) by (simp add: nth_eq_iff_index_eq)
    qed
    show ?thesis
      using run_item_trips[OF assms(1) Inr, of resultExtractor] no by blast
  qed
next
  show w: "enqueue_items abi address contracts 0 countsResults =
           enqueue_items abi address (without idx contracts) 0 (without idx countsResults)"
    using assms(2,4,5) by (intro enqueue_items_without) simp_all
  assume c': "tryAggregate net (countCalls abi address (without idx contracts)) = Inr (without idx countsResults)"
  show "batchQueryDynamicDetails net address contracts abi resultExtractor =
          batchQueryDynamicDetails net address (without idx contracts) abi resultExtractor"
  proof (cases "enqueue_items abi address contracts 0 countsResults")
    case (Inl e)
    show ?thesis
      using run_count_decode_fails(1)[OF assms(1) Inl, of resultExtractor]
            run_count_decode_fails(1)[OF c' Inl[unfolded w], of resultExtractor]
      by simp
  next
    case (Inr itemCalls)
    show ?thesis
      using run_attempted(1)[OF assms(1) Inr, of resultExtractor]
            run_attempted(1)[OF c' Inr[unfolded w], of resultExtractor]
      by simp
  qed
  show "tl (round_trips (batchQueryDynamicDetails_run net address contracts abi resultExtractor)) =
          tl (round_trips (batchQueryDynamicDetails_run net address (without idx contracts) abi resultExtractor))"
  proof (cases "enqueue_items abi address contracts 0 countsResults")
    case (Inl e)
    show ?thesis
      using run_count_decode_fails(2)[OF assms(1) Inl, of resultExtractor]
            run_count_decode_fails(2)[OF c' Inl[unfolded w], of resultExtractor]
      by simp
  next
    case (Inr itemCalls)
    show ?thesis
      using run_attempted(2)[OF assms(1) Inr, of resultExtractor]
            run_attempted(2)[OF c' Inr[unfolded w], of resultExtractor]
      by simp
  qed
next
  assume d: "\<forall>r \<in> set countsResults. success r \<longrightarrow> (\<exists>n. decodeCount abi (returnData r) = Inr n)"
  show e: "enqueue_items abi address contracts 0 countsResults =
             Inr (expected_item_calls abi address contracts countsResults)"
    using enqueue_items_expected[OF assms(2) d] .
  assume ok: "\<forall>c \<in> set (chunks CHUNK_SIZE (expected_item_calls abi address contracts countsResults)).
                 chunk_ok net abi resultExtractor c"
  note run = run_all_ok[OF assms(1) e ok]
  show "concat (tl (round_trips (batchQueryDynamicDetails_run net address contracts abi resultExtractor))) =
          expected_item_calls abi address contracts countsResults"
    by (simp add: run concat_chunks CHUNK_SIZE_def)
  show "batchQueryDynamicDetails net address contracts abi resultExtractor =
          Inr (sum_list (map (chunk_sum net abi resultExtractor)
                 (chunks CHUNK_SIZE (expected_item_calls abi address contracts countsResults))))"
    by (simp add: run batchQueryDynamicDetails_def)
qed

lemma example_count_phase:
  "tryAggregate (example_network stakes)
     (countCalls example_stake_codec example_address (AIRDROP_A_ENERGY_STAKE_CONTRACTS example_config)) =
   Inr (example_counts stakes)"
  by (simp add: example_network_def countCalls_def example_config_def example_answer_def
                example_counts_def example_stake_codec_def encode_address_call_def)

lemma example_enqueue_120:
  "enqueue_items example_stake_codec example_address (AIRDROP_A_ENERGY_STAKE_CONTRACTS example_config) 0
     (example_counts ''0x77'') = Inr example_item_calls"
  by (simp add: example_counts_def example_item_calls_def example_config_def js_index_def
                example_stake_codec_def decode_uint_def item_calls_for_def)

lemma example_item_calls_length: "length example_item_calls = 120"
  by (simp add: example_item_calls_def item_calls_for_def)

theorem chunked_item_fetch_witness:
  "length example_item_calls = 120 \<and>
   map length (tl (round_trips (batchQueryDynamicDetails_run (example_network ''0x77'') example_address
      (AIRDROP_A_ENERGY_STAKE_CONTRACTS example_config) example_stake_codec stake_extractor))) = [50, 50, 20] \<and>
   batchQueryDynamicDetails (example_network ''0x77'') example_address
      (AIRDROP_A_ENERGY_STAKE_CONTRACTS example_config) example_stake_codec stake_extractor = Inr 12000"
proof -
  note h3 = example_item_calls_length
  have ok: "chunk_ok (example_network ''0x77'') example_stake_codec stake_extractor (take 50 example_item_calls)"
    "chunk_ok (example_network ''0x77'') example_stake_codec stake_extractor (take 50 (drop 50 example_item_calls))"
    "chunk_ok (example_network ''0x77'') example_stake_codec stake_extractor (drop 100 example_item_calls)"
    by code_simp+
  have h4: "\<forall>c \<in> set (chunks CHUNK_SIZE example_item_calls).
              chunk_ok (example_network ''0x77'') example_stake_codec stake_extractor c"
    unfolding chunks_120[OF h3] using ok by simp
  have s: "chunk_sum (example_network ''0x77'') example_stake_codec stake_extractor (take 50 example_item_calls) = 5000"
    "chunk_sum (example_network ''0x77'') example_stake_codec stake_extractor (take 50 (drop 50 example_item_calls)) = 5000"
    "chunk_sum (example_network ''0x77'') example_stake_codec stake_extractor (drop 100 example_item_calls) = 2000"
    by code_simp+
  show ?thesis
    using chunked_item_fetch[OF example_count_phase example_enqueue_120 h3 h4] h3 s
    by (simp add: CHUNK_SIZE_def)
qed

theorem failed_count_contributes_nothing_witness:
  "tryAggregate (example_network ''0x02'')
     (countCalls example_stake_codec example_address (AIRDROP_A_ENERGY_STAKE_CONTRACTS example_config)) =
     Inr (example_counts ''0x02'') \<and>
   length (example_counts ''0x02'') = length (AIRDROP_A_ENERGY_STAKE_CONTRACTS example_config) \<and>
   distinct (AIRDROP_A_ENERGY_STAKE_CONTRACTS example_config) \<and>
   1 < length (AIRDROP_A_ENERGY_STAKE_CONTRACTS example_config) \<and>
   \<not> success (example_counts ''0x02'' ! 1) \<and>
   enqueue_items example_stake_codec example_address (AIRDROP_A_ENERGY_STAKE_CONTRACTS example_config) 0
     ((example_counts ''0x02'')[1 := \<lparr>success = False, returnData = ''0x78''\<rparr>]) =
   enqueue_items example_stake_codec example_address (AIRDROP_A_ENERGY_STAKE_CONTRACTS example_config) 0
     (example_counts ''0x02'') \<and>
   enqueue_items example_stake_codec example_address (AIRDROP_A_ENERGY_STAKE_CONTRACTS example_config) 0
     (example_counts ''0x02'') =
   Inr (item_calls_for example_stake_codec example_address ''0x00000000000000000000000000000000000000b1'' 2 @
        item_calls_for example_stake_codec example_address ''0x00000000000000000000000000000000000000b3'' 1) \<and>
   concat (tl (round_trips (batchQueryDynamicDetails_run (example_network ''0x02'') example_address
      (AIRDROP_A_ENERGY_STAKE_CONTRACTS example_config) example_stake_codec stake_extractor))) =
   item_calls_for example_stake_codec example_address ''0x00000000000000000000000000000000000000b1'' 2 @
   item_calls_for example_stake_codec example_address ''0x00000000000000000000000000000000000000b3'' 1 \<and>
   batchQueryDynamicDetails (example_network ''0x02'') example_address
      (AIRDROP_A_ENERGY_STAKE_CONTRACTS example_config) example_stake_codec stake_extractor = Inr 300 \<and>
   batchQueryDynamicDetails (example_network ''0x02'') example_address
      [''0x00000000000000000000000000000000000000b1'', ''0x00000000000000000000000000000000000000b3'']
      example_stake_codec stake_extractor = Inr 300"
proof -
  let ?cs = "AIRDROP_A_ENERGY_STAKE_CONTRACTS example_config"
  let ?net = "example_network ''0x02''"
  let ?items = "item_calls_for example_stake_codec example_address ''0x00000000000000000000000000000000000000b1'' 2 @
        item_calls_for example_stake_codec example_address ''0x00000000000000000000000000000000000000b3'' 1"
  have h2: "length (example_counts ''0x02'') = length ?cs"
    by (simp add: example_counts_def example_config_def)
  have h3: "distinct ?cs"
    by (simp add: example_config_def)
  have h4: "1 < length ?cs"
    by (simp add: example_config_def)
  have h5: "\<not> success (example_counts ''0x02'' ! 1)"
    by (simp add: example_counts_def)
  have wc: "without 1 ?cs =
      [''0x00000000000000000000000000000000000000b1'', ''0x00000000000000000000000000000000000000b3'']"
    by (simp add: without_def example_config_def)
  have h6: "tryAggregate ?net (countCalls example_stake_codec example_address (without 1 ?cs)) =
            Inr (without 1 (example_counts ''0x02''))"
    unfolding wc
    by (simp add: example_network_def countCalls_def example_answer_def without_def
                  example_counts_def example_stake_codec_def encode_address_call_def)
  have h7: "\<forall>r \<in> set (example_counts ''0x02'').
              success r \<longrightarrow> (\<exists>n. decodeCount example_stake_codec (returnData r) = Inr n)"
    by (simp add: example_counts_def example_stake_codec_def decode_uint_def)
  have ex: "expected_item_calls example_stake_codec example_address ?cs (example_counts ''0x02'') = ?items"
    by (simp add: expected_item_calls_def example_counts_def example_config_def decoded_count_def
                  example_stake_codec_def decode_uint_def upt_rec)
  have ch: "chunks CHUNK_SIZE ?items = [?items]"
    by (subst chunks.simps, subst chunks.simps) (simp add: CHUNK_SIZE_def item_calls_for_def)
  have ok: "chunk_ok ?net example_stake_codec stake_extractor ?items"
    by code_simp
  have s: "chunk_sum ?net example_stake_codec stake_extractor ?items = 300"
    by code_simp
  have h8: "\<forall>c \<in> set (chunks CHUNK_SIZE
              (expected_item_calls example_stake_codec example_address ?cs (example_counts ''0x02''))).
              chunk_ok ?net example_stake_codec stake_extractor c"
    unfolding ex ch using ok by simp
  note t = failed_count_contributes_nothing[OF example_count_phase h2 h3 h4 h5, of stake_extractor]
  note t3 = t[THEN conjunct2, THEN conjunct2, THEN conjunct1, rule_format, of "''0x78''"]
  note t5 = t[THEN conjunct2, THEN conjunct2, THEN conjunct2, THEN conjunct2, THEN conjunct1,
              THEN mp, OF h6, THEN conjunct1]
  note t6 = t[THEN conjunct2, THEN conjunct2, THEN conjunct2, THEN conjunct2, THEN conjunct2,
              THEN mp, OF h7]
  note t6a = t6[THEN conjunct1, unfolded ex]
  note t6b = t6[THEN conjunct2, THEN mp, OF h8, unfolded ex ch]
  note t6c = t6b[THEN conjunct1]
  have b1: "batchQueryDynamicDetails ?net example_address ?cs example_stake_codec stake_extractor = Inr 300"
    using t6b[THEN conjunct2] by (simp only: list.map sum_list.Cons sum_list.Nil s add_0_right)
  have b2: "batchQueryDynamicDetails ?net example_address
      [''0x00000000000000000000000000000000000000b1'', ''0x00000000000000000000000000000000000000b3'']
      example_stake_codec stake_extractor = Inr 300"
    using t5[unfolded wc] b1 by (simp only:)
  have t3': "enqueue_items example_stake_codec example_address ?cs 0
     ((example_counts ''0x02'')[1 := \<lparr>success = False, returnData = ''0x78''\<rparr>]) =
   enqueue_items example_stake_codec example_address ?cs 0 (example_counts ''0x02'')"
    using t3 .
  show ?thesis
    using example_count_phase[of "''0x02''"] h2 h3 h4 h5 t3' t6a t6c b1 b2
    by blast
qed

section \<open>Properties of the snapshot orchestrator\<close>

lemma chunk_loop_nonneg:
  "(\<And>d. 0 \<le> ex d) \<Longrightarrow> 0 \<le> run_total run \<Longrightarrow>
   0 \<le> run_total (chunk_loop net abi ex itemCalls i run)"
proof (induction net abi ex itemCalls i run rule: chunk_loop.induct)
  case (1 net abi ex itemCalls i run)
  note ex = "1.prems"(1) and run = "1.prems"(2)
  show ?case
  proof (cases "i < length itemCalls")
    case False
    then show ?thesis using run by (subst chunk_loop.simps) simp
  next
    case True
    let ?chunk = "take CHUNK_SIZE (drop i itemCalls)"
    let ?run1 = "run\<lparr>round_trips := round_trips run @ [?chunk]\<rparr>"
    show ?thesis
    proof (cases "tryAggregate net ?chunk")
      case (Inl e)
      then show ?thesis using True run
        by (subst chunk_loop.simps) (simp add: Let_def)
    next
      case (Inr rs)
      obtain t eo where ai: "add_items abi ex rs (run_total ?run1) = (t, eo)"
        by (cases "add_items abi ex rs (run_total ?run1)")
      have "0 \<le> fst (add_items abi ex rs (run_total run))"
        by (rule add_items_nonneg[OF ex run])
      then have t: "0 \<le> t" using ai by simp
      show ?thesis
      proof (cases eo)
        case (Some e)
        then show ?thesis using True Inr ai t
          by (subst chunk_loop.simps) (simp add: Let_def)
      next
        case None
        have step: "chunk_loop net abi ex itemCalls i run =
              chunk_loop net abi ex itemCalls (i + CHUNK_SIZE) (?run1\<lparr>run_total := t\<rparr>)"
          using True Inr ai None by (subst chunk_loop.simps) (simp add: Let_def)
        have "0 \<le> run_total (chunk_loop net abi ex itemCalls (i + CHUNK_SIZE) (?run1\<lparr>run_total := t\<rparr>))"
        proof (rule "1.IH"[OF True refl refl Inr _ _ ex])
          show "(t, eo) = add_items abi ex rs (run_total ?run1)" using ai by simp
          show "eo = None" by (rule None)
          show "0 \<le> run_total (?run1\<lparr>run_total := t\<rparr>)" using t by simp
        qed
        then show ?thesis unfolding step .
      qed
    qed
  qed
qed

lemma run_total_nonneg:
  assumes "\<And>d. 0 \<le> ex d"
  shows "0 \<le> run_total (batchQueryDynamicDetails_run net address contracts abi ex)"
proof -
  have "0 \<le> run_total (chunk_loop net abi ex itemCalls 0 run)" if "0 \<le> run_total run" for itemCalls run
    by (rule chunk_loop_nonneg[OF assms that])
  then show ?thesis
    by (simp add: batchQueryDynamicDetails_run_def Let_def split: sum.splits)
qed

lemma stake_extractor_nonneg: "0 \<le> stake_extractor d"
  by (simp add: stake_extractor_def)

lemma bond_extractor_nonneg: "0 \<le> bond_extractor d"
  by (simp add: bond_extractor_def split: option.splits)

lemma queryTotalStaking_nonneg: "queryTotalStaking net cfg a = Inr v \<Longrightarrow> 0 \<le> v"
  by (auto simp: queryTotalStaking_def queryTotalStaking_try_def
           split: sum.splits option.splits if_splits prod.splits dest: BigInt_bytes_nonneg)

lemma simple_field_Inr:
  "simple_field decode rs k = Inr v \<Longrightarrow> 0 \<le> v \<and> k < length rs \<and> (\<not> success (rs ! k) \<longrightarrow> v = 0)"
  by (auto simp: simple_field_def split: if_splits sum.splits)

lemma build_snapshot_Inr:
  "build_snapshot cfg rs ts ms bs = Inr s \<longleftrightarrow>
     (\<exists>turbine zhuwang lgns slgns.
        simple_field (decode_getTurbineBal cfg) rs 0 = Inr turbine \<and>
        simple_field (decode_claimable cfg) rs 1 = Inr zhuwang \<and>
        simple_field (decode_balanceOf cfg) rs 2 = Inr lgns \<and>
        simple_field (decode_balanceOf cfg) rs 3 = Inr slgns \<and>
        s = \<lparr>totalStaking = ts, airdropEnergyStaking = ms, bondStaking = bs,
             zhuwangReward = zhuwang, turbineBalance = turbine, lgnsBalance = lgns,
             slgnsBalance = slgns\<rparr>)"
  by (auto simp: build_snapshot_def split: sum.splits)

lemma queryAddressFullData_unfold:
  "queryAddressFullData net cfg aAddr dAddr =
     (case simpleCalls cfg aAddr dAddr of
        Inl e \<Rightarrow> Inl e
      | Inr calls \<Rightarrow>
          (case tryAggregate net calls of
             Inl e \<Rightarrow> Inl e
           | Inr simpleResults \<Rightarrow>
               build_snapshot cfg simpleResults
                 (case queryTotalStaking_try net cfg aAddr of Inr (Some v) \<Rightarrow> v | _ \<Rightarrow> 0)
                 (run_total (batchQueryDynamicDetails_run net aAddr (AIRDROP_A_ENERGY_STAKE_CONTRACTS cfg)
                               (STAKE_ABI cfg) stake_extractor))
                 (run_total (batchQueryDynamicDetails_run net aAddr (BOND_CONTRACT_ADDRESSES cfg)
                               (LONG_BONDS_ABI cfg) bond_extractor))))"
  by (simp add: queryAddressFullData_def queryTotalStaking_def batchQueryDynamicDetails_def
           split: sum.splits option.splits)

lemma enqueue_items_all_failed:
  "\<forall>r \<in> set rs. \<not> success r \<Longrightarrow> enqueue_items abi address contracts idx0 rs = Inr []"
  by (induction rs arbitrary: idx0) simp_all

lemma simple_field_decoded:
  "simple_field decode rs k = Inr v \<Longrightarrow> success (rs ! k) \<Longrightarrow> decode (returnData (rs ! k)) = Inr (nat v)"
  by (auto simp: simple_field_def split: if_splits sum.splits)

lemma run_count_rejected:
  "tryAggregate net (countCalls abi address contracts) = Inl e \<Longrightarrow>
   run_total (batchQueryDynamicDetails_run net address contracts abi ex) = 0"
  by (simp add: batchQueryDynamicDetails_run_def)

lemma dynamic_field_value:
  "(\<forall>e. tryAggregate net (countCalls abi address contracts) = Inl e \<longrightarrow>
        run_total (batchQueryDynamicDetails_run net address contracts abi ex) = 0) \<and>
   (\<forall>rs e. tryAggregate net (countCalls abi address contracts) = Inr rs \<and>
           enqueue_items abi address contracts 0 rs = Inl e \<longrightarrow>
        run_total (batchQueryDynamicDetails_run net address contracts abi ex) = 0) \<and>
   (\<forall>rs. tryAggregate net (countCalls abi address contracts) = Inr rs \<and>
         (\<forall>r \<in> set rs. \<not> success r) \<longrightarrow>
        run_total (batchQueryDynamicDetails_run net address contracts abi ex) = 0) \<and>
   (\<forall>rs calls. tryAggregate net (countCalls abi address contracts) = Inr rs \<and>
           enqueue_items abi address contracts 0 rs = Inr calls \<longrightarrow>
        run_total (batchQueryDynamicDetails_run net address contracts abi ex) =
          sum_list (map (chunk_sum net abi ex) (attempted net abi ex (chunks CHUNK_SIZE calls))))"
proof (intro conjI allI impI)
  fix e assume "tryAggregate net (countCalls abi address contracts) = Inl e"
  then show "run_total (batchQueryDynamicDetails_run net address contracts abi ex) = 0"
    by (rule run_count_rejected)
next
  fix rs e
  assume "tryAggregate net (countCalls abi address contracts) = Inr rs \<and>
           enqueue_items abi address contracts 0 rs = Inl e"
  then show "run_total (batchQueryDynamicDetails_run net address contracts abi ex) = 0"
    by (simp add: batchQueryDynamicDetails_run_def)
next
  fix rs
  assume a: "tryAggregate net (countCalls abi address contracts) = Inr rs \<and>
         (\<forall>r \<in> set rs. \<not> success r)"
  then have "enqueue_items abi address contracts 0 rs = Inr []"
    by (intro enqueue_items_all_failed) simp
  with a show "run_total (batchQueryDynamicDetails_run net address contracts abi ex) = 0"
    by (simp add: batchQueryDynamicDetails_run_def)
next
  fix rs calls
  assume a: "tryAggregate net (countCalls abi address contracts) = Inr rs \<and>
           enqueue_items abi address contracts 0 rs = Inr calls"
  then show "run_total (batchQueryDynamicDetails_run net address contracts abi ex) =
          sum_list (map (chunk_sum net abi ex) (attempted net abi ex (chunks CHUNK_SIZE calls)))"
    using run_attempted(1)[of net abi address contracts rs calls ex]
    by (simp add: batchQueryDynamicDetails_def)
qed

text \<open>
  C3 (as amended). A snapshot that \<open>queryAddressFullData\<close> returns has seven
  non-negative fields. Each of the four simple fields is 0 when its entry of the simple
  batch has \<open>success = false\<close>, and is the decoded return data when the entry has
  \<open>success = true\<close>: a successful entry whose data does not decode, such as no data,
  gives no snapshot at all. \<open>totalStaking\<close> is 0 when the raw call is rejected, returns
  nothing (\<open>""\<close> or \<open>"0x"\<close>) or its answer cannot be read. Each of the two dynamic fields
  is 0 when its count round trip is rejected, a count does not decode or every count
  call has \<open>success = false\<close>; otherwise it is the sum of the chunks fetched up to and
  including the first chunk that fails, which is a partial sum, not 0, when a later
  chunk fails.
\<close>

theorem snapshot_fully_populated:
  assumes "queryAddressFullData net cfg aAddr dAddr = Inr s"
  shows "0 \<le> totalStaking s \<and> 0 \<le> airdropEnergyStaking s \<and> 0 \<le> bondStaking s \<and>
         0 \<le> zhuwangReward s \<and> 0 \<le> turbineBalance s \<and> 0 \<le> lgnsBalance s \<and>
         0 \<le> slgnsBalance s \<and>
         (\<exists>calls simpleResults.
            simpleCalls cfg aAddr dAddr = Inr calls \<and>
            tryAggregate net calls = Inr simpleResults \<and>
            4 \<le> length simpleResults \<and>
            (\<not> success (simpleResults ! 0) \<longrightarrow> turbineBalance s = 0) \<and>
            (\<not> success (simpleResults ! 1) \<longrightarrow> zhuwangReward s = 0) \<and>
            (\<not> success (simpleResults ! 2) \<longrightarrow> lgnsBalance s = 0) \<and>
            (\<not> success (simpleResults ! 3) \<longrightarrow> slgnsBalance s = 0) \<and>
            (success (simpleResults ! 0) \<longrightarrow>
               decode_getTurbineBal cfg (returnData (simpleResults ! 0)) = Inr (nat (turbineBalance s))) \<and>
            (success (simpleResults ! 1) \<longrightarrow>
               decode_claimable cfg (returnData (simpleResults ! 1)) = Inr (nat (zhuwangReward s))) \<and>
            (success (simpleResults ! 2) \<longrightarrow>
               decode_balanceOf cfg (returnData (simpleResults ! 2)) = Inr (nat (lgnsBalance s))) \<and>
            (success (simpleResults ! 3) \<longrightarrow>
               decode_balanceOf cfg (returnData (simpleResults ! 3)) = Inr (nat (slgnsBalance s)))) \<and>
         ((\<forall>r. eth_call net (TOTAL_STAKING_QUERY_CONTRACT cfg) (totalStaking_callData aAddr) = Inr r \<longrightarrow>
                r = [] \<or> r = ''0x'') \<longrightarrow> totalStaking s = 0) \<and>
         ((\<exists>e. queryTotalStaking_try net cfg aAddr = Inl e) \<longrightarrow> totalStaking s = 0) \<and>
         (\<forall>e. tryAggregate net (countCalls (STAKE_ABI cfg) aAddr (AIRDROP_A_ENERGY_STAKE_CONTRACTS cfg)) = Inl e \<longrightarrow>
              airdropEnergyStaking s = 0) \<and>
         (\<forall>rs e. tryAggregate net (countCalls (STAKE_ABI cfg) aAddr (AIRDROP_A_ENERGY_STAKE_CONTRACTS cfg)) = Inr rs \<and>
              enqueue_items (STAKE_ABI cfg) aAddr (AIRDROP_A_ENERGY_STAKE_CONTRACTS cfg) 0 rs = Inl e \<longrightarrow>
              airdropEnergyStaking s = 0) \<and>
         (\<forall>rs. tryAggregate net (countCalls (STAKE_ABI cfg) aAddr (AIRDROP_A_ENERGY_STAKE_CONTRACTS cfg)) = Inr rs \<and>
              (\<forall>r \<in> set rs. \<not> success r) \<longrightarrow> airdropEnergyStaking s = 0) \<and>
         (\<forall>rs calls.
              tryAggregate net (countCalls (STAKE_ABI cfg) aAddr (AIRDROP_A_ENERGY_STAKE_CONTRACTS cfg)) = Inr rs \<and>
              enqueue_items (STAKE_ABI cfg) aAddr (AIRDROP_A_ENERGY_STAKE_CONTRACTS cfg) 0 rs = Inr calls \<longrightarrow>
              airdropEnergyStaking s =
                sum_list (map (chunk_sum net (STAKE_ABI cfg) stake_extractor)
                   (attempted net (STAKE_ABI cfg) stake_extractor (chunks CHUNK_SIZE calls)))) \<and>
         (\<forall>e. tryAggregate net (countCalls (LONG_BONDS_ABI cfg) aAddr (BOND_CONTRACT_ADDRESSES cfg)) = Inl e \<longrightarrow>
              bondStaking s = 0) \<and>
         (\<forall>rs e. tryAggregate net (countCalls (LONG_BONDS_ABI cfg) aAddr (BOND_CONTRACT_ADDRESSES cfg)) = Inr rs \<and>
              enqueue_items (LONG_BONDS_ABI cfg) aAddr (BOND_CONTRACT_ADDRESSES cfg) 0 rs = Inl e \<longrightarrow>
              bondStaking s = 0) \<and>
         (\<forall>rs. tryAggregate net (countCalls (LONG_BONDS_ABI cfg) aAddr (BOND_CONTRACT_ADDRESSES cfg)) = Inr rs \<and>
              (\<forall>r \<in> set rs. \<not> success r) \<longrightarrow> bondStaking s = 0) \<and>
         (\<forall>rs calls.
              tryAggregate net (countCalls (LONG_BONDS_ABI cfg) aAddr (BOND_CONTRACT_ADDRESSES cfg)) = Inr rs \<and>
              enqueue_items (LONG_BONDS_ABI cfg) aAddr (BOND_CONTRACT_ADDRESSES cfg) 0 rs = Inr calls \<longrightarrow>
              bondStaking s =
                sum_list (map (chunk_sum net (LONG_BONDS_ABI cfg) bond_extractor)
                   (attempted net (LONG_BONDS_ABI cfg) bond_extractor (chunks CHUNK_SIZE calls))))"
proof -
  let ?ts = "case queryTotalStaking_try net cfg aAddr of Inr (Some v) \<Rightarrow> v | _ \<Rightarrow> 0"
  let ?srun = "batchQueryDynamicDetails_run net aAddr (AIRDROP_A_ENERGY_STAKE_CONTRACTS cfg)
                 (STAKE_ABI cfg) stake_extractor"
  let ?brun = "batchQueryDynamicDetails_run net aAddr (BOND_CONTRACT_ADDRESSES cfg)
                 (LONG_BONDS_ABI cfg) bond_extractor"
  from assms obtain calls rs where calls: "simpleCalls cfg aAddr dAddr = Inr calls"
    and rs: "tryAggregate net calls = Inr rs"
    and bs: "build_snapshot cfg rs ?ts (run_total ?srun) (run_total ?brun) = Inr s"
    unfolding queryAddressFullData_unfold by (auto split: sum.splits)
  from bs obtain turbine zhuwang lgns slgns where
    f0: "simple_field (decode_getTurbineBal cfg) rs 0 = Inr turbine" and
    f1: "simple_field (decode_claimable cfg) rs 1 = Inr zhuwang" and
    f2: "simple_field (decode_balanceOf cfg) rs 2 = Inr lgns" and
    f3: "simple_field (decode_balanceOf cfg) rs 3 = Inr slgns" and
    s: "s = \<lparr>totalStaking = ?ts, airdropEnergyStaking = run_total ?srun, bondStaking = run_total ?brun,
             zhuwangReward = zhuwang, turbineBalance = turbine, lgnsBalance = lgns,
             slgnsBalance = slgns\<rparr>"
    unfolding build_snapshot_Inr by blast
  note g0 = simple_field_Inr[OF f0] and g1 = simple_field_Inr[OF f1]
   and g2 = simple_field_Inr[OF f2] and g3 = simple_field_Inr[OF f3]
  note d0 = simple_field_decoded[OF f0] and d1 = simple_field_decoded[OF f1]
   and d2 = simple_field_decoded[OF f2] and d3 = simple_field_decoded[OF f3]
  have "queryTotalStaking net cfg aAddr = Inr ?ts"
    by (simp add: queryTotalStaking_def split: sum.splits option.splits)
  then have n1: "0 \<le> totalStaking s" using queryTotalStaking_nonneg s by simp
  have n2: "0 \<le> airdropEnergyStaking s"
    using run_total_nonneg[of stake_extractor, OF stake_extractor_nonneg] s by simp
  have n3: "0 \<le> bondStaking s"
    using run_total_nonneg[of bond_extractor, OF bond_extractor_nonneg] s by simp
  have n4: "0 \<le> zhuwangReward s" "0 \<le> turbineBalance s" "0 \<le> lgnsBalance s" "0 \<le> slgnsBalance s"
    using g0 g1 g2 g3 s by simp_all
  have simple: "\<exists>calls simpleResults.
            simpleCalls cfg aAddr dAddr = Inr calls \<and>
            tryAggregate net calls = Inr simpleResults \<and>
            4 \<le> length simpleResults \<and>
            (\<not> success (simpleResults ! 0) \<longrightarrow> turbineBalance s = 0) \<and>
            (\<not> success (simpleResults ! 1) \<longrightarrow> zhuwangReward s = 0) \<and>
            (\<not> success (simpleResults ! 2) \<longrightarrow> lgnsBalance s = 0) \<and>
            (\<not> success (simpleResults ! 3) \<longrightarrow> slgnsBalance s = 0) \<and>
            (success (simpleResults ! 0) \<longrightarrow>
               decode_getTurbineBal cfg (returnData (simpleResults ! 0)) = Inr (nat (turbineBalance s))) \<and>
            (success (simpleResults ! 1) \<longrightarrow>
               decode_claimable cfg (returnData (simpleResults ! 1)) = Inr (nat (zhuwangReward s))) \<and>
            (success (simpleResults ! 2) \<longrightarrow>
               decode_balanceOf cfg (returnData (simpleResults ! 2)) = Inr (nat (lgnsBalance s))) \<and>
            (success (simpleResults ! 3) \<longrightarrow>
               decode_balanceOf cfg (returnData (simpleResults ! 3)) = Inr (nat (slgnsBalance s)))"
    using calls rs g0 g1 g2 g3 d0 d1 d2 d3 s by (intro exI[of _ calls] exI[of _ rs]) simp
  have total: "(\<forall>r. eth_call net (TOTAL_STAKING_QUERY_CONTRACT cfg) (totalStaking_callData aAddr) = Inr r \<longrightarrow>
                r = [] \<or> r = ''0x'') \<longrightarrow> totalStaking s = 0"
    using s by (auto simp: queryTotalStaking_try_def split: sum.splits option.splits)
  have total': "(\<exists>e. queryTotalStaking_try net cfg aAddr = Inl e) \<longrightarrow> totalStaking s = 0"
    using s by auto
  note sd = dynamic_field_value[of net "STAKE_ABI cfg" aAddr "AIRDROP_A_ENERGY_STAKE_CONTRACTS cfg" stake_extractor]
  note bd = dynamic_field_value[of net "LONG_BONDS_ABI cfg" aAddr "BOND_CONTRACT_ADDRESSES cfg" bond_extractor]
  have sa: "airdropEnergyStaking s = run_total ?srun" and ba: "bondStaking s = run_total ?brun"
    using s by simp_all
  show ?thesis
    unfolding sa ba
    using n1 n2[unfolded sa] n3[unfolded ba] n4 simple total total'
          sd[THEN conjunct1] sd[THEN conjunct2, THEN conjunct1]
          sd[THEN conjunct2, THEN conjunct2, THEN conjunct1]
          sd[THEN conjunct2, THEN conjunct2, THEN conjunct2]
          bd[THEN conjunct1] bd[THEN conjunct2, THEN conjunct1]
          bd[THEN conjunct2, THEN conjunct2, THEN conjunct1]
          bd[THEN conjunct2, THEN conjunct2, THEN conjunct2]
    by (intro conjI)
qed

lemma example_enqueue_3:
  "enqueue_items example_stake_codec example_address (AIRDROP_A_ENERGY_STAKE_CONTRACTS example_config) 0
     (example_counts ''0x02'') =
   Inr (item_calls_for example_stake_codec example_address ''0x00000000000000000000000000000000000000b1'' 2 @
        item_calls_for example_stake_codec example_address ''0x00000000000000000000000000000000000000b3'' 1)"
  by (simp add: example_counts_def example_config_def js_index_def
                example_stake_codec_def decode_uint_def item_calls_for_def)

theorem snapshot_fully_populated_witness:
  "queryAddressFullData (example_network ''0x02'') example_config example_address example_derived =
     Inr example_full_snapshot \<and>
   0 \<le> totalStaking example_full_snapshot \<and> 0 \<le> airdropEnergyStaking example_full_snapshot \<and>
   0 \<le> bondStaking example_full_snapshot \<and> 0 \<le> zhuwangReward example_full_snapshot \<and>
   0 \<le> turbineBalance example_full_snapshot \<and> 0 \<le> lgnsBalance example_full_snapshot \<and>
   0 \<le> slgnsBalance example_full_snapshot \<and>
   airdropEnergyStaking example_full_snapshot =
     sum_list (map (chunk_sum (example_network ''0x02'') (STAKE_ABI example_config) stake_extractor)
       (attempted (example_network ''0x02'') (STAKE_ABI example_config) stake_extractor
          (chunks CHUNK_SIZE
             (item_calls_for example_stake_codec example_address
                ''0x00000000000000000000000000000000000000b1'' 2 @
              item_calls_for example_stake_codec example_address
                ''0x00000000000000000000000000000000000000b3'' 1))))"
proof -
  have h: "queryAddressFullData (example_network ''0x02'') example_config example_address example_derived =
     Inr example_full_snapshot"
    by code_simp
  have abi: "STAKE_ABI example_config = example_stake_codec"
    by (simp add: example_config_def)
  have c: "tryAggregate (example_network ''0x02'')
             (countCalls (STAKE_ABI example_config) example_address
                (AIRDROP_A_ENERGY_STAKE_CONTRACTS example_config)) = Inr (example_counts ''0x02'') \<and>
           enqueue_items (STAKE_ABI example_config) example_address
             (AIRDROP_A_ENERGY_STAKE_CONTRACTS example_config) 0 (example_counts ''0x02'') =
           Inr (item_calls_for example_stake_codec example_address
                  ''0x00000000000000000000000000000000000000b1'' 2 @
                item_calls_for example_stake_codec example_address
                  ''0x00000000000000000000000000000000000000b3'' 1)"
    unfolding abi using example_count_phase example_enqueue_3 by (intro conjI)
  note t = snapshot_fully_populated[OF h]
  note t7 = t[THEN conjunct1] t[THEN conjunct2, THEN conjunct1]
    t[THEN conjunct2, THEN conjunct2, THEN conjunct1]
    t[THEN conjunct2, THEN conjunct2, THEN conjunct2, THEN conjunct1]
    t[THEN conjunct2, THEN conjunct2, THEN conjunct2, THEN conjunct2, THEN conjunct1]
    t[THEN conjunct2, THEN conjunct2, THEN conjunct2, THEN conjunct2, THEN conjunct2, THEN conjunct1]
    t[THEN conjunct2, THEN conjunct2, THEN conjunct2, THEN conjunct2, THEN conjunct2, THEN conjunct2,
      THEN conjunct1]
  note dyn = t[THEN conjunct2, THEN conjunct2, THEN conjunct2, THEN conjunct2, THEN conjunct2,
      THEN conjunct2, THEN conjunct2, THEN conjunct2, THEN conjunct2, THEN conjunct2,
      THEN conjunct2, THEN conjunct2, THEN conjunct2, THEN conjunct1, THEN spec, THEN spec, THEN mp, OF c]
  show ?thesis
    using h t7 dyn by (intro conjI)
qed

text \<open>
  C3 (as stated) fails. On a chain where the second of three item batches of the stake
  contracts is rejected, a snapshot is returned whose \<open>airdropEnergyStaking\<close> is the sum
  of the first batch, 5000, not 0. On a chain where the turbine call succeeds and returns
  no data, no snapshot is returned.
\<close>

theorem partial_sum_counterexample:
  "queryAddressFullData flaky_network example_config example_address example_derived =
     Inr \<lparr>totalStaking = 256, airdropEnergyStaking = 5000, bondStaking = 40, zhuwangReward = 0,
          turbineBalance = 5, lgnsBalance = 7, slgnsBalance = 9\<rparr> \<and>
   tryAggregate flaky_network (take 50 (drop 50 example_item_calls)) = Inl NetworkError \<and>
   round_trips (batchQueryDynamicDetails_run flaky_network example_address
      (AIRDROP_A_ENERGY_STAKE_CONTRACTS example_config) (STAKE_ABI example_config) stake_extractor) =
     [countCalls (STAKE_ABI example_config) example_address (AIRDROP_A_ENERGY_STAKE_CONTRACTS example_config),
      take 50 example_item_calls, take 50 (drop 50 example_item_calls)] \<and>
   queryAddressFullData empty_data_network example_config example_address example_derived =
     Inl DecodeError"
  by code_simp

text \<open>
  C4. When the simple-balance batch is rejected, or any of the three other sub-fetches
  hands \<open>Promise.all\<close> a rejection, \<open>queryAddressFullData\<close> fails and returns no
  snapshot; the error of a rejected simple batch is the error it fails with. So does an
  encoder that throws while the simple calls are built. The three other sub-fetches catch
  their own errors (the raw query returns 0, a dynamic fetch the total it has reached), so
  that what they absorb does not reach \<open>Promise.all\<close>.
\<close>

theorem failed_sub_fetch_aborts_snapshot:
  "((\<exists>calls e. simpleCalls cfg aAddr dAddr = Inr calls \<and> tryAggregate net calls = Inl e) \<or>
    (\<exists>e. queryTotalStaking net cfg aAddr = Inl e) \<or>
    (\<exists>e. batchQueryDynamicDetails net aAddr (AIRDROP_A_ENERGY_STAKE_CONTRACTS cfg) (STAKE_ABI cfg)
            stake_extractor = Inl e) \<or>
    (\<exists>e. batchQueryDynamicDetails net aAddr (BOND_CONTRACT_ADDRESSES cfg) (LONG_BONDS_ABI cfg)
            bond_extractor = Inl e) \<longrightarrow>
    (\<exists>e. queryAddressFullData net cfg aAddr dAddr = Inl e) \<and>
    (\<forall>s. queryAddressFullData net cfg aAddr dAddr \<noteq> Inr s)) \<and>
   (\<forall>calls e. simpleCalls cfg aAddr dAddr = Inr calls \<and> tryAggregate net calls = Inl e \<longrightarrow>
      queryAddressFullData net cfg aAddr dAddr = Inl e) \<and>
   (\<forall>e. simpleCalls cfg aAddr dAddr = Inl e \<longrightarrow> queryAddressFullData net cfg aAddr dAddr = Inl e)"
  by (auto simp: queryAddressFullData_def split: sum.splits)

theorem failed_sub_fetch_aborts_snapshot_witness:
  "simpleCalls example_config example_address example_derived =
     Inr [\<lparr>target = ''0x00000000000000000000000000000000000000d1'',
           callData = ''0x55555555999c9cfee1fd3c13cac00797b48382e5eb2be12e''\<rparr>,
          \<lparr>target = ''0x00000000000000000000000000000000000000d2'',
           callData = ''0x66666666999c9cfee1fd3c13cac00797b48382e5eb2be12e''\<rparr>,
          \<lparr>target = ''0x00000000000000000000000000000000000000e1'',
           callData = ''0x70a082318C666Bf050D99187a65675701FAcC28AaBA46e71''\<rparr>,
          \<lparr>target = ''0x00000000000000000000000000000000000000e2'',
           callData = ''0x70a082318C666Bf050D99187a65675701FAcC28AaBA46e71''\<rparr>] \<and>
   tryAggregate dead_network
     [\<lparr>target = ''0x00000000000000000000000000000000000000d1'',
       callData = ''0x55555555999c9cfee1fd3c13cac00797b48382e5eb2be12e''\<rparr>,
      \<lparr>target = ''0x00000000000000000000000000000000000000d2'',
       callData = ''0x66666666999c9cfee1fd3c13cac00797b48382e5eb2be12e''\<rparr>,
      \<lparr>target = ''0x00000000000000000000000000000000000000e1'',
       callData = ''0x70a082318C666Bf050D99187a65675701FAcC28AaBA46e71''\<rparr>,
      \<lparr>target = ''0x00000000000000000000000000000000000000e2'',
       callData = ''0x70a082318C666Bf050D99187a65675701FAcC28AaBA46e71''\<rparr>] = Inl NetworkError \<and>
   queryAddressFullData dead_network example_config example_address example_derived = Inl NetworkError \<and>
   simpleCalls example_config ''0x99'' example_derived = Inl EncodeError \<and>
   queryAddressFullData (example_network ''0x02'') example_config ''0x99'' example_derived = Inl EncodeError"
proof -
  let ?calls = "[\<lparr>target = ''0x00000000000000000000000000000000000000d1'',
       callData = ''0x55555555999c9cfee1fd3c13cac00797b48382e5eb2be12e''\<rparr>,
      \<lparr>target = ''0x00000000000000000000000000000000000000d2'',
       callData = ''0x66666666999c9cfee1fd3c13cac00797b48382e5eb2be12e''\<rparr>,
      \<lparr>target = ''0x00000000000000000000000000000000000000e1'',
       callData = ''0x70a082318C666Bf050D99187a65675701FAcC28AaBA46e71''\<rparr>,
      \<lparr>target = ''0x00000000000000000000000000000000000000e2'',
       callData = ''0x70a082318C666Bf050D99187a65675701FAcC28AaBA46e71''\<rparr>]"
  have h1: "simpleCalls example_config example_address example_derived = Inr ?calls"
    by (simp add: simpleCalls_def example_config_def encode_checked_call_def encode_address_call_def
                  example_address_def example_derived_def)
  have h2: "tryAggregate dead_network ?calls = Inl NetworkError"
    by (simp add: dead_network_def)
  have h3: "simpleCalls example_config ''0x99'' example_derived = Inl EncodeError"
    by (simp add: simpleCalls_def example_config_def encode_checked_call_def)
  have a: "queryAddressFullData dead_network example_config example_address example_derived = Inl NetworkError"
    using failed_sub_fetch_aborts_snapshot[of example_config example_address example_derived dead_network,
            THEN conjunct2, THEN conjunct1, THEN spec, THEN spec, THEN mp, OF conjI, OF h1 h2] .
  have b: "queryAddressFullData (example_network ''0x02'') example_config ''0x99'' example_derived = Inl EncodeError"
    using failed_sub_fetch_aborts_snapshot[of example_config "''0x99''" example_derived "example_network ''0x02''",
            THEN conjunct2, THEN conjunct2, THEN spec, THEN mp, OF h3] .
  show ?thesis
    using h1 h2 a h3 b by (intro conjI)
qed

section \<open>Properties of getProvider\<close>

text \<open>
  C10. When the default endpoint can be constructed, \<open>getProvider\<close> returns a provider
  for every URL and keeps it as the current provider. When the construction for the given
  URL fails, the provider returned is one for the default endpoint, and the error is
  logged, not propagated. When the given URL can be constructed, a second call with the
  same URL returns the same object and leaves the module state as it was: nothing is
  constructed. The constructor of ethers accepts every string (it makes no connection),
  so that both conditions hold for every URL the program passes.
\<close>

theorem getProvider_never_throws_and_caches:
  assumes "valid DEFAULT_ENDPOINT"
  shows "\<exists>p c'. getProvider valid rpcUrl c = Inr (p, c') \<and> currentProvider c' = Some p \<and>
           (\<not> valid rpcUrl \<and> (currentProvider c = None \<or> currentRpcUrl c \<noteq> Some rpcUrl) \<longrightarrow>
              p = \<lparr>provider_id = constructed c, provider_url = DEFAULT_ENDPOINT\<rparr> \<and>
              provider_errors c' = provider_errors c @ [ProviderError]) \<and>
           (valid rpcUrl \<and> (currentProvider c = None \<or> currentRpcUrl c \<noteq> Some rpcUrl) \<longrightarrow>
              p = \<lparr>provider_id = constructed c, provider_url = rpcUrl\<rparr>) \<and>
           (valid rpcUrl \<longrightarrow>
              provider_errors c' = provider_errors c \<and> getProvider valid rpcUrl c' = Inr (p, c')) \<and>
           (currentProvider c \<noteq> None \<and> currentRpcUrl c = Some rpcUrl \<longrightarrow>
              c' = c \<and> currentProvider c = Some p)"
proof (cases "currentProvider c \<noteq> None \<and> currentRpcUrl c = Some rpcUrl")
  case True
  then obtain p where p: "currentProvider c = Some p" by auto
  with True have "getProvider valid rpcUrl c = Inr (p, c)"
    by (simp add: getProvider_def)
  with True p show ?thesis by auto
next
  case False
  show ?thesis
  proof (cases "valid rpcUrl")
    case True
    let ?p = "\<lparr>provider_id = constructed c, provider_url = rpcUrl\<rparr>"
    let ?c = "c\<lparr>constructed := Suc (constructed c), currentProvider := Some ?p,
               currentRpcUrl := Some rpcUrl\<rparr>"
    have 1: "getProvider valid rpcUrl c = Inr (?p, ?c)"
      using False True by (auto simp: getProvider_def new_JsonRpcProvider_def)
    have 2: "getProvider valid rpcUrl ?c = Inr (?p, ?c)"
      by (simp add: getProvider_def)
    show ?thesis
      using 1 2 False True by (intro exI[of _ ?p] exI[of _ ?c]) auto
  next
    case invalid: False
    let ?p = "\<lparr>provider_id = constructed c, provider_url = DEFAULT_ENDPOINT\<rparr>"
    let ?c = "c\<lparr>provider_errors := provider_errors c @ [ProviderError],
               constructed := Suc (constructed c), currentProvider := Some ?p,
               currentRpcUrl := Some DEFAULT_ENDPOINT\<rparr>"
    have 1: "getProvider valid rpcUrl c = Inr (?p, ?c)"
      using False invalid assms by (auto simp: getProvider_def new_JsonRpcProvider_def)
    show ?thesis
      using 1 False invalid by (intro exI[of _ ?p] exI[of _ ?c]) auto
  qed
qed

theorem getProvider_never_throws_and_caches_witness:
  "accepts_every_url DEFAULT_ENDPOINT \<and> accepts_every_url ''https://polygon-rpc.com'' \<and>
   getProvider accepts_every_url ''https://polygon-rpc.com'' empty_cache =
     Inr (\<lparr>provider_id = 0, provider_url = ''https://polygon-rpc.com''\<rparr>,
          \<lparr>currentProvider = Some \<lparr>provider_id = 0, provider_url = ''https://polygon-rpc.com''\<rparr>,
           currentRpcUrl = Some ''https://polygon-rpc.com'', constructed = 1, provider_errors = []\<rparr>) \<and>
   getProvider accepts_every_url ''https://polygon-rpc.com''
     \<lparr>currentProvider = Some \<lparr>provider_id = 0, provider_url = ''https://polygon-rpc.com''\<rparr>,
      currentRpcUrl = Some ''https://polygon-rpc.com'', constructed = 1, provider_errors = []\<rparr> =
     Inr (\<lparr>provider_id = 0, provider_url = ''https://polygon-rpc.com''\<rparr>,
          \<lparr>currentProvider = Some \<lparr>provider_id = 0, provider_url = ''https://polygon-rpc.com''\<rparr>,
           currentRpcUrl = Some ''https://polygon-rpc.com'', constructed = 1, provider_errors = []\<rparr>) \<and>
   valid_default_only DEFAULT_ENDPOINT \<and> \<not> valid_default_only ''not a url'' \<and>
   getProvider valid_default_only ''not a url'' empty_cache =
     Inr (\<lparr>provider_id = 0, provider_url = DEFAULT_ENDPOINT\<rparr>,
          \<lparr>currentProvider = Some \<lparr>provider_id = 0, provider_url = DEFAULT_ENDPOINT\<rparr>,
           currentRpcUrl = Some DEFAULT_ENDPOINT, constructed = 1,
           provider_errors = [ProviderError]\<rparr>)"
proof -
  let ?u = "''https://polygon-rpc.com''"
  have h: "accepts_every_url DEFAULT_ENDPOINT" "accepts_every_url ?u"
    by (simp_all add: accepts_every_url_def)
  have g: "valid_default_only DEFAULT_ENDPOINT" "\<not> valid_default_only ''not a url''"
    by (simp_all add: valid_default_only_def DEFAULT_ENDPOINT_def)
  obtain p c' where
    1: "getProvider accepts_every_url ?u empty_cache = Inr (p, c')" and
    2: "accepts_every_url ?u \<longrightarrow>
          provider_errors c' = provider_errors empty_cache \<and>
          getProvider accepts_every_url ?u c' = Inr (p, c')"
    using getProvider_never_throws_and_caches[where valid=accepts_every_url and rpcUrl="?u"
            and c=empty_cache, OF h(1)] by blast
  have e: "getProvider accepts_every_url ?u empty_cache =
     Inr (\<lparr>provider_id = 0, provider_url = ?u\<rparr>,
          \<lparr>currentProvider = Some \<lparr>provider_id = 0, provider_url = ?u\<rparr>,
           currentRpcUrl = Some ?u, constructed = 1, provider_errors = []\<rparr>)"
    by (simp add: getProvider_def new_JsonRpcProvider_def empty_cache_def accepts_every_url_def)
  from 1 e have pc: "p = \<lparr>provider_id = 0, provider_url = ?u\<rparr>"
    "c' = \<lparr>currentProvider = Some \<lparr>provider_id = 0, provider_url = ?u\<rparr>,
           currentRpcUrl = Some ?u, constructed = 1, provider_errors = []\<rparr>"
    by auto
  from 2 h have r: "getProvider accepts_every_url ?u c' = Inr (p, c')" by blast
  obtain q d where
    3: "getProvider valid_default_only ''not a url'' empty_cache = Inr (q, d)" and
    4: "\<not> valid_default_only ''not a url'' \<and>
          (currentProvider empty_cache = None \<or> currentRpcUrl empty_cache \<noteq> Some ''not a url'') \<longrightarrow>
          q = \<lparr>provider_id = constructed empty_cache, provider_url = DEFAULT_ENDPOINT\<rparr> \<and>
          provider_errors d = provider_errors empty_cache @ [ProviderError]"
    using getProvider_never_throws_and_caches[where valid=valid_default_only and rpcUrl="''not a url''"
            and c=empty_cache, OF g(1)] by blast
  from 4 g have q: "q = \<lparr>provider_id = 0, provider_url = DEFAULT_ENDPOINT\<rparr>"
    "provider_errors d = [ProviderError]"
    by (simp_all add: empty_cache_def)
  have "currentProvider d = Some q \<and> currentRpcUrl d = Some DEFAULT_ENDPOINT \<and> constructed d = 1"
    using 3 g by (auto simp: getProvider_def new_JsonRpcProvider_def empty_cache_def split: if_splits)
  with q have "d = \<lparr>currentProvider = Some \<lparr>provider_id = 0, provider_url = DEFAULT_ENDPOINT\<rparr>,
           currentRpcUrl = Some DEFAULT_ENDPOINT, constructed = 1,
           provider_errors = [ProviderError]\<rparr>"
    by (cases d) simp
  with 3 q have f: "getProvider valid_default_only ''not a url'' empty_cache =
     Inr (\<lparr>provider_id = 0, provider_url = DEFAULT_ENDPOINT\<rparr>,
          \<lparr>currentProvider = Some \<lparr>provider_id = 0, provider_url = DEFAULT_ENDPOINT\<rparr>,
           currentRpcUrl = Some DEFAULT_ENDPOINT, constructed = 1,
           provider_errors = [ProviderError]\<rparr>)"
    by simp
  show ?thesis
    using h e r[unfolded pc] g f by (intro conjI)
qed

end
